theory Spec2Isabelle
  imports Main "HOL-Library.Word"
begin

unbundle bit_operations_syntax

section \<open>The device object of src/device.c\<close>

subsection \<open>Address types and time\<close>

type_synonym uint8_t = "8 word"
type_synonym uint16_t = "16 word"
type_synonym uint32_t = "32 word"
type_synonym int8_t = "8 word"
type_synonym time_t = int

text \<open>
  Modelled from the spec: the three address-type constants come from lib/bluetooth.h,
  which is not among the sources; the spec lists the address types as BR/EDR-public,
  LE-public and LE-random. The values are those of the header; the code only compares
  them for equality.
\<close>

definition BDADDR_BREDR :: uint8_t where
  "BDADDR_BREDR = 0"

definition BDADDR_LE_PUBLIC :: uint8_t where
  "BDADDR_LE_PUBLIC = 1"

definition BDADDR_LE_RANDOM :: uint8_t where
  "BDADDR_LE_RANDOM = 2"

definition NVAL_TIME :: time_t where
  "NVAL_TIME = - 1"

definition SEEN_TRESHHOLD :: time_t where
  "SEEN_TRESHHOLD = 300"

definition RSSI_THRESHOLD :: int8_t where
  "RSSI_THRESHOLD = 8"

subsection \<open>Records of the device\<close>

text \<open>\<open>struct bearer_state\<close>; the field \<open>prefer\<close> is written \<open>prefer'\<close>.\<close>

record bearer_state =
  prefer' :: bool
  paired :: bool
  bonded :: bool
  connected :: bool
  svc_resolved :: bool
  initiator :: bool
  connectable :: bool
  last_seen :: time_t
  last_used :: time_t

record csrk_info =
  key :: "uint8_t list"
  counter :: uint32_t
  auth :: bool

datatype auth_type_t =
  AUTH_TYPE_PINCODE
  | AUTH_TYPE_PASSKEY
  | AUTH_TYPE_CONFIRM
  | AUTH_TYPE_NOTIFY_PASSKEY
  | AUTH_TYPE_NOTIFY_PINCODE

text \<open>An agent is known to the device only as a reference; it is modelled by its number.\<close>

type_synonym agent = nat

record authentication_req =
  auth_type :: auth_type_t
  auth_agent :: "agent option"
  addr_type :: uint8_t
  passkey :: uint32_t
  secure :: bool

text \<open>The D-Bus method a pending message was sent for.\<close>

datatype dbus_method = Pair | Connect | ConnectProfile | Disconnect | RemoveDevice

record bonding_req =
  bonding_msg :: dbus_method
  bonding_bdaddr_type :: uint8_t
  bonding_agent :: "agent option"

datatype browse_type = BROWSE_SDP | BROWSE_GATT

record browse_req =
  browse_kind :: browse_type
  browse_msg :: "dbus_method option"

text \<open>The replies a method handler hands back to the bus.\<close>

datatype dbus_reply =
  MethodReturn
  | InvalidArguments
  | InProgress
  | NotReady
  | AlreadyExists
  | ProfileUnavailable
  | Failed

text \<open>The two \<open>struct btd_bearer\<close> objects of a device, \<open>dev->bredr\<close> and \<open>dev->le\<close>.\<close>

datatype bearer = Bearer_BREDR | Bearer_LE

text \<open>
  What the device asks of its collaborators (the object bus, the adapter, the agent, the
  main loop) is recorded in the order of the calls, in the field \<open>trace\<close>.
\<close>

datatype event =
  PropertyChanged string
  | DisconnectedSignal uint8_t
  | SendReply dbus_method dbus_reply
  | BearerPaired bearer
  | BearerDisconnected bearer uint8_t
  | AdapterRemoveBonding uint8_t
  | AdapterCreateBonding uint8_t
  | AdapterConfirmReply uint8_t bool
  | AdapterAcceptListAdd
  | AdapterAcceptListRemove
  | AdapterConnectListAdd
  | AdapterConnectListRemove
  | AdapterAutoConnectAdd
  | AdapterAutoConnectRemove
  | AgentCancel agent
  | AgentRequestAuthorization "agent option"
  | AgentRequestConfirmation "agent option" uint32_t
  | IdleAddStoreDeviceInfo
  | StoreServices
  | TimeoutAdd nat
  | TimeoutRemove
  | ConnectLE

datatype btd_service_state_t =
  BTD_SERVICE_STATE_UNAVAILABLE
  | BTD_SERVICE_STATE_DISCONNECTED
  | BTD_SERVICE_STATE_CONNECTING
  | BTD_SERVICE_STATE_CONNECTED
  | BTD_SERVICE_STATE_DISCONNECTING

text \<open>
  \<open>struct btd_device\<close>, with the fields the functions below read or write. A pointer
  that is only tested against \<open>NULL\<close> is a \<open>bool\<close> (\<open>bredr\<close>, \<open>le\<close>,
  \<open>attrib\<close>) or an \<open>option\<close>; the adapter's two settings the device asks for are
  the fields \<open>adapter_powered\<close> and \<open>adapter_bredr\<close>.
\<close>

record btd_device =
  bdaddr :: "uint8_t list"
  bdaddr_type :: uint8_t
  bredr :: bool
  le :: bool
  pending_paired :: bool
  svc_refreshed :: bool
  eir_uuids :: "string list"
  appearance :: uint16_t
  primaries :: "nat list"
  services :: "btd_service_state_t list"
  pending :: "nat list"
  temporary :: bool
  disconn_timer :: nat
  temporary_timer :: nat
  browse :: "browse_req option"
  bonding :: "bonding_req option"
  authr :: "authentication_req option"
  disconnects :: "dbus_method list"
  connect :: "dbus_method option"
  attrib :: bool
  prefer_bearer :: uint8_t
  bredr_state :: bearer_state
  le_state :: bearer_state
  local_csrk :: "csrk_info option"
  remote_csrk :: "csrk_info option"
  auto_connect :: bool
  disable_auto_connect :: bool
  general_connect :: bool
  rssi :: int8_t
  store_id :: nat
  adapter_powered :: bool
  adapter_bredr :: bool
  trace :: "event list"

definition emit :: "event \<Rightarrow> btd_device \<Rightarrow> btd_device" where
  "emit e dev = dev\<lparr>trace := trace dev @ [e]\<rparr>"

text \<open>\<open>get_state\<close>: the BR/EDR state for \<open>BDADDR_BREDR\<close>, the LE state for any other type.\<close>

definition get_state :: "btd_device \<Rightarrow> uint8_t \<Rightarrow> bearer_state" where
  "get_state dev t = (if t = BDADDR_BREDR then bredr_state dev else le_state dev)"

text \<open>Writing through the pointer \<open>get_state\<close> returns.\<close>

definition set_state :: "uint8_t \<Rightarrow> bearer_state \<Rightarrow> btd_device \<Rightarrow> btd_device" where
  "set_state t st dev =
     (if t = BDADDR_BREDR then dev\<lparr>bredr_state := st\<rparr> else dev\<lparr>le_state := st\<rparr>)"

subsection \<open>Bearer selection for Connect\<close>

text \<open>
  The age of the last sighting of one bearer, as \<open>select_conn_bearer\<close> computes it for
  \<open>bredr_last\<close> and for \<open>le_last\<close>: \<open>NVAL_TIME\<close> unless the bearer is connectable and
  has been seen, and \<open>NVAL_TIME\<close> again when the age is above the threshold.
\<close>

definition seen_age :: "time_t \<Rightarrow> bearer_state \<Rightarrow> time_t" where
  "seen_age current st =
     (if connectable st \<and> last_seen st \<noteq> 0
      then (if current - last_seen st > SEEN_TRESHHOLD then NVAL_TIME
            else current - last_seen st)
      else NVAL_TIME)"

text \<open>\<open>select_conn_bearer\<close>; \<open>current\<close> is the value of \<open>time(NULL)\<close>.\<close>

definition select_conn_bearer :: "time_t \<Rightarrow> btd_device \<Rightarrow> uint8_t" where
  "select_conn_bearer current dev =
     (if prefer' (bredr_state dev) \<or>
         (bonded (bredr_state dev) \<and> \<not> bonded (le_state dev))
      then BDADDR_BREDR
      else if prefer' (le_state dev) \<or>
         (\<not> bonded (bredr_state dev) \<and> bonded (le_state dev))
      then bdaddr_type dev
      else if bdaddr_type dev = BDADDR_LE_RANDOM then bdaddr_type dev
      else
        (let bredr_last = seen_age current (bredr_state dev);
             le_last = seen_age current (le_state dev)
         in if le_last = NVAL_TIME \<and> bredr_last = NVAL_TIME then bdaddr_type dev
            else if bredr dev \<and> (\<not> le dev \<or> le_last = NVAL_TIME) then BDADDR_BREDR
            else if le dev \<and> (\<not> bredr dev \<or> bredr_last = NVAL_TIME) then bdaddr_type dev
            else if bredr_last \<le> le_last \<and> adapter_bredr dev then BDADDR_BREDR
            else bdaddr_type dev))"

text \<open>
  The selection in the order the specification gives for a device with both bearers:
  a bearer bonded alone, then a set \<open>prefer\<close> flag, then an LE random address, then the
  smaller freshness with ties to BR/EDR. Freshness is the time since the last sighting
  of a connectable bearer, unknown (\<open>None\<close>) above 300 seconds; with both unknown
  the bearer of the address type is taken. The LE bearer is named by the device's
  address type. Both definitions are written from the specification's words, to be
  compared with \<open>select_conn_bearer\<close>.
\<close>

definition spec_freshness :: "time_t \<Rightarrow> bearer_state \<Rightarrow> time_t option" where
  "spec_freshness now st =
     (if connectable st \<and> now - last_seen st \<le> 300 then Some (now - last_seen st)
      else None)"

definition spec_select_conn_bearer :: "time_t \<Rightarrow> btd_device \<Rightarrow> uint8_t" where
  "spec_select_conn_bearer now dev =
     (if bonded (bredr_state dev) \<and> \<not> bonded (le_state dev) then BDADDR_BREDR
      else if bonded (le_state dev) \<and> \<not> bonded (bredr_state dev) then bdaddr_type dev
      else if prefer' (bredr_state dev) then BDADDR_BREDR
      else if prefer' (le_state dev) then bdaddr_type dev
      else if bdaddr_type dev = BDADDR_LE_RANDOM then bdaddr_type dev
      else
        (case (spec_freshness now (bredr_state dev), spec_freshness now (le_state dev)) of
           (None, None) \<Rightarrow> bdaddr_type dev
         | (Some fb, None) \<Rightarrow> BDADDR_BREDR
         | (None, Some fl) \<Rightarrow> bdaddr_type dev
         | (Some fb, Some fl) \<Rightarrow> (if fb \<le> fl then BDADDR_BREDR else bdaddr_type dev)))"

subsection \<open>Options and results that come from outside the device\<close>

text \<open>
  Modelled from the spec: the just-works re-pairing policy is an enumeration of main.h,
  which is not among the sources; the spec names its three values never, always and ask.
\<close>

datatype jw_repairing_t = JW_REPAIRING_NEVER | JW_REPAIRING_CONFIRM | JW_REPAIRING_ALWAYS

text \<open>The fields of the global \<open>btd_opts\<close> that the functions below read.\<close>

record btd_opts =
  tmpto :: nat
  jw_repairing :: jw_repairing_t

text \<open>
  What the calls into the bus, the agent registry, the ATT layer and the adapter return
  during one request: whether the message's arguments parse, the agent of the sender and
  the default agent, and the error codes of the connection and bonding calls.
\<close>

record ext =
  args_ok :: bool
  sender_agent :: "agent option"
  default_agent :: "agent option"
  le_connect_before_pairing :: bool
  connect_le_err :: int
  set_security_ok :: bool
  create_bonding_err :: int
  agent_request_err :: int

text \<open>The two error numbers the functions below return or test, as errno.h has them.\<close>

definition EPERM :: int where
  "EPERM = 1"

definition EINPROGRESS :: int where
  "EINPROGRESS = 115"

subsection \<open>Persistence and the temporary flag\<close>

text \<open>
  \<open>device_address_is_private\<close>. The address is the array \<open>b[6]\<close> of \<open>bdaddr_t\<close>,
  a list of six bytes here.
\<close>

definition device_address_is_private :: "btd_device \<Rightarrow> bool" where
  "device_address_is_private dev =
     (if bdaddr_type dev \<noteq> BDADDR_LE_RANDOM then False
      else (let t = drop_bit 6 (bdaddr dev ! 5) in t = 0 \<or> t = 1))"

text \<open>
  \<open>store_device_info\<close> schedules \<open>store_device_info_cb\<close> on the main loop.
  \<open>g_idle_add\<close> returns a source id above zero; the model keeps 1 for it.
\<close>

definition store_device_info :: "btd_device \<Rightarrow> btd_device" where
  "store_device_info dev =
     (if temporary dev \<or> store_id dev > 0 then dev
      else if device_address_is_private dev then dev
      else emit IdleAddStoreDeviceInfo (dev\<lparr>store_id := 1\<rparr>))"

definition clear_temporary_timer :: "btd_device \<Rightarrow> btd_device" where
  "clear_temporary_timer dev =
     (if temporary_timer dev \<noteq> 0
      then (emit TimeoutRemove dev)\<lparr>temporary_timer := 0\<rparr>
      else dev)"

definition set_temporary_timer :: "nat \<Rightarrow> btd_device \<Rightarrow> btd_device" where
  "set_temporary_timer timeout dev =
     (let dev1 = clear_temporary_timer dev
      in if timeout = 0 then dev1
         else (emit (TimeoutAdd timeout) dev1)\<lparr>temporary_timer := 1\<rparr>)"

definition PREFER_LAST_USED :: uint8_t where
  "PREFER_LAST_USED = 0"

definition PREFER_LE :: uint8_t where
  "PREFER_LE = 1"

definition PREFER_BREDR :: uint8_t where
  "PREFER_BREDR = 2"

definition PREFER_LAST_SEEN :: uint8_t where
  "PREFER_LAST_SEEN = 3"

definition device_prefer_bearer_str :: "btd_device \<Rightarrow> string option" where
  "device_prefer_bearer_str dev =
     (if \<not> bredr dev \<or> \<not> le dev then None
      else if prefer_bearer dev = PREFER_LAST_USED then Some ''last-used''
      else if prefer_bearer dev = PREFER_LE then Some ''le''
      else if prefer_bearer dev = PREFER_BREDR then Some ''bredr''
      else if prefer_bearer dev = PREFER_LAST_SEEN then Some ''last-seen''
      else None)"

definition device_set_auto_connect :: "bool \<Rightarrow> btd_device \<Rightarrow> btd_device" where
  "device_set_auto_connect enable dev =
     (if \<not> le dev \<or> device_address_is_private dev then dev
      else if auto_connect dev = enable then dev
      else
        (let dev1 = dev\<lparr>auto_connect := enable\<rparr>
         in if \<not> enable
            then emit AdapterAutoConnectRemove (emit AdapterConnectListRemove dev1)
            else if device_prefer_bearer_str dev1 = Some ''bredr'' then dev1
            else
              (let dev2 = emit AdapterAutoConnectAdd dev1
               in if attrib dev2 then dev2 else emit AdapterConnectListAdd dev2)))"

definition btd_device_set_temporary :: "btd_opts \<Rightarrow> bool \<Rightarrow> btd_device \<Rightarrow> btd_device" where
  "btd_device_set_temporary opts tmp dev =
     (if temporary dev = tmp then dev
      else if device_address_is_private dev then dev
      else
        (let dev1 = dev\<lparr>temporary := tmp\<rparr>
         in if tmp
            then
              (let dev2 = (if bredr dev1 then emit AdapterAcceptListRemove dev1 else dev1);
                   dev3 = emit AdapterConnectListRemove dev2;
                   dev4 = (if auto_connect dev3
                           then device_set_auto_connect False
                                  (dev3\<lparr>disable_auto_connect := True\<rparr>)
                           else dev3)
               in set_temporary_timer (tmpto opts) dev4)
            else
              (let dev2 = clear_temporary_timer dev1;
                   dev3 = (if bredr dev2 then emit AdapterAcceptListAdd dev2 else dev2);
                   dev4 = store_device_info dev3
               in if bdaddr_type dev4 \<noteq> BDADDR_BREDR \<and> svc_resolved (le_state dev4) \<and>
                     length (primaries dev4) \<noteq> 0
                  then emit StoreServices dev4
                  else dev4)))"

subsection \<open>Signature counters\<close>

text \<open>
  \<open>local_counter\<close> and \<open>remote_counter\<close>, the callbacks the ATT layer calls for a signed
  write. The first returns the counter to sign with (\<open>None\<close> for \<open>false\<close>), the second
  whether the received counter is accepted.
\<close>

definition local_counter :: "btd_device \<Rightarrow> uint32_t option \<times> btd_device" where
  "local_counter dev =
     (case local_csrk dev of
        None \<Rightarrow> (None, dev)
      | Some c \<Rightarrow>
          (Some (counter c),
           store_device_info (dev\<lparr>local_csrk := Some (c\<lparr>counter := counter c + 1\<rparr>)\<rparr>)))"

definition remote_counter :: "uint32_t \<Rightarrow> btd_device \<Rightarrow> bool \<times> btd_device" where
  "remote_counter sign_cnt dev =
     (case remote_csrk dev of
        None \<Rightarrow> (False, dev)
      | Some c \<Rightarrow>
          (if sign_cnt < counter c then (False, dev)
           else (True,
                 store_device_info (dev\<lparr>remote_csrk := Some (c\<lparr>counter := sign_cnt\<rparr>)\<rparr>))))"

text \<open>A sequence of received signed writes: the answers in order, and the device after.\<close>

fun remote_counters :: "uint32_t list \<Rightarrow> btd_device \<Rightarrow> bool list \<times> btd_device" where
  "remote_counters [] dev = ([], dev)"
| "remote_counters (c # cs) dev =
     (let (ok, dev1) = remote_counter c dev;
          (oks, dev2) = remote_counters cs dev1
      in (ok # oks, dev2))"

text \<open>The counters of a sequence that were accepted.\<close>

fun accepted :: "uint32_t list \<Rightarrow> bool list \<Rightarrow> uint32_t list" where
  "accepted (c # cs) (ok # oks) = (if ok then c # accepted cs oks else accepted cs oks)"
| "accepted cs oks = []"

text \<open>The counter stored with the remote key; 0 stands for no key in this reading only.\<close>

definition remote_count :: "btd_device \<Rightarrow> uint32_t" where
  "remote_count dev = (case remote_csrk dev of None \<Rightarrow> 0 | Some c \<Rightarrow> counter c)"

text \<open>\<open>device_set_csrk\<close>: a key delivered by the management layer, with its counter.\<close>

definition device_set_csrk ::
  "btd_opts \<Rightarrow> uint8_t list \<Rightarrow> uint32_t \<Rightarrow> uint8_t \<Rightarrow> bool \<Rightarrow> btd_device \<Rightarrow> btd_device" where
  "device_set_csrk opts val cnt ty store_hint dev =
     (if 3 < ty then dev
      else
        (let remote = (ty = 1 \<or> ty = 3);
             csrk = \<lparr>key = val, counter = cnt, auth = (ty = 2 \<or> ty = 3)\<rparr>;
             dev1 = (if remote then dev\<lparr>remote_csrk := Some csrk\<rparr>
                     else dev\<lparr>local_csrk := Some csrk\<rparr>)
         in if \<not> store_hint then dev1
            else btd_device_set_temporary opts False (store_device_info dev1)))"

subsection \<open>RSSI and appearance\<close>

definition device_set_rssi_with_delta :: "int8_t \<Rightarrow> int8_t \<Rightarrow> btd_device \<Rightarrow> btd_device" where
  "device_set_rssi_with_delta r delta_threshold dev =
     (if r = 0 \<or> rssi dev = 0
      then (if rssi dev = r then dev
            else emit (PropertyChanged ''RSSI'') (dev\<lparr>rssi := r\<rparr>))
      else
        (let delta = (if sint (rssi dev) > sint r then sint (rssi dev) - sint r
                      else sint r - sint (rssi dev))
         in if delta < sint delta_threshold then dev
            else emit (PropertyChanged ''RSSI'') (dev\<lparr>rssi := r\<rparr>)))"

definition device_set_rssi :: "int8_t \<Rightarrow> btd_device \<Rightarrow> btd_device" where
  "device_set_rssi r dev = device_set_rssi_with_delta r RSSI_THRESHOLD dev"

text \<open>
  \<open>device_set_appearance\<close>. \<open>gap_appearance_to_icon\<close> is outside the sources; \<open>icon\<close> is
  what it returns for \<open>value\<close>.
\<close>

definition device_set_appearance :: "string option \<Rightarrow> uint16_t \<Rightarrow> btd_device \<Rightarrow> btd_device" where
  "device_set_appearance icon v dev =
     (if appearance dev = v then dev
      else
        (let dev1 = emit (PropertyChanged ''Appearance'') dev;
             dev2 = (if icon \<noteq> None then emit (PropertyChanged ''Icon'') dev1 else dev1)
         in store_device_info (dev2\<lparr>appearance := v\<rparr>)))"

definition device_get_appearance :: "btd_device \<Rightarrow> uint16_t option" where
  "device_get_appearance dev = (if appearance dev = 0 then None else Some (appearance dev))"

subsection \<open>Connection removal\<close>

definition device_set_svc_refreshed :: "bool \<Rightarrow> btd_device \<Rightarrow> btd_device" where
  "device_set_svc_refreshed v dev =
     (if svc_refreshed dev = v then dev
      else emit (PropertyChanged ''ServicesResolved'') (dev\<lparr>svc_refreshed := v\<rparr>))"

definition device_update_last_seen ::
  "btd_opts \<Rightarrow> time_t \<Rightarrow> uint8_t \<Rightarrow> bool \<Rightarrow> btd_device \<Rightarrow> btd_device" where
  "device_update_last_seen opts current t conn dev =
     (let dev1 = set_state t ((get_state dev t)\<lparr>last_seen := current, connectable := conn\<rparr>) dev
      in if \<not> temporary dev1 then dev1
         else set_temporary_timer (tmpto opts) dev1)"

text \<open>
  \<open>device_disconnected\<close> maps the reason code to a name and sends the signal; the event
  keeps the code.
\<close>

definition device_disconnected :: "uint8_t \<Rightarrow> btd_device \<Rightarrow> btd_device" where
  "device_disconnected reason dev = emit (DisconnectedSignal reason) dev"

text \<open>
  The loop at the end of \<open>device_remove_connection\<close>: every queued disconnect message is
  answered and dropped; the flag tells whether one of them was RemoveDevice.
\<close>

fun reply_disconnects :: "dbus_method list \<Rightarrow> bool \<Rightarrow> btd_device \<Rightarrow> btd_device \<times> bool" where
  "reply_disconnects [] remove_device dev = (dev\<lparr>disconnects := []\<rparr>, remove_device)"
| "reply_disconnects (msg # rest) remove_device dev =
     reply_disconnects rest (if msg = RemoveDevice then True else remove_device)
       (emit (SendReply msg MethodReturn) dev)"

definition bearer_of :: "uint8_t \<Rightarrow> bearer" where
  "bearer_of t = (if t = BDADDR_BREDR then Bearer_BREDR else Bearer_LE)"

text \<open>
  \<open>device_remove_connection\<close> in the three parts of its body. First the link goes down:
  the flags of the bearer are cleared, ServicesResolved falls, the disconnect timer is
  removed, a waiting Connect is answered with an error and the bearer object is told.
\<close>

definition remove_connection_link :: "uint8_t \<Rightarrow> uint8_t \<Rightarrow> btd_device \<Rightarrow> btd_device" where
  "remove_connection_link t reason dev =
     (let dev1 = set_state t ((get_state dev t)\<lparr>connected := False, initiator := False\<rparr>) dev;
          dev2 = device_set_svc_refreshed False (dev1\<lparr>general_connect := False\<rparr>);
          dev3 = (if disconn_timer dev2 > 0
                  then (emit TimeoutRemove dev2)\<lparr>disconn_timer := 0\<rparr>
                  else dev2);
          dev4 = (case connect dev3 of
                    None \<Rightarrow> dev3
                  | Some msg \<Rightarrow> (emit (SendReply msg Failed) dev3)\<lparr>connect := None\<rparr>)
      in emit (BearerDisconnected (bearer_of t) reason) dev4)"

text \<open>
  Then the paired status of both bearers is checked: a bearer that is not connected and
  paired without being bonded loses its bonding and its \<open>paired\<close> flag, and the Paired
  change is reported only if both bearers are unpaired.
\<close>

definition remove_connection_unpair :: "btd_device \<Rightarrow> btd_device" where
  "remove_connection_unpair dev5 =
     (let upd_bredr = (\<not> connected (bredr_state dev5) \<and> paired (bredr_state dev5) \<and>
                       \<not> bonded (bredr_state dev5));
          dev6 = (if upd_bredr
                  then emit (BearerPaired Bearer_BREDR)
                         ((emit (AdapterRemoveBonding BDADDR_BREDR) dev5)
                            \<lparr>bredr_state := (bredr_state dev5)\<lparr>paired := False\<rparr>\<rparr>)
                  else dev5);
          upd_le = (\<not> connected (le_state dev6) \<and> paired (le_state dev6) \<and>
                    \<not> bonded (le_state dev6));
          dev7 = (if upd_le
                  then emit (BearerPaired Bearer_LE)
                         ((emit (AdapterRemoveBonding (bdaddr_type dev6)) dev6)
                            \<lparr>le_state := (le_state dev6)\<lparr>paired := False\<rparr>\<rparr>)
                  else dev6);
          paired_status_updated = (upd_bredr \<or> upd_le)
      in if \<not> paired (bredr_state dev7) \<and> \<not> paired (le_state dev7) \<and>
            paired_status_updated
         then emit (PropertyChanged ''Paired'') dev7
         else dev7)"

text \<open>
  Last, when no bearer is connected any more, the device is marked as seen, the
  Disconnected signal and the Connected change are sent and the queued disconnect
  requests are answered.
\<close>

definition remove_connection_finish ::
  "btd_opts \<Rightarrow> time_t \<Rightarrow> uint8_t \<Rightarrow> uint8_t \<Rightarrow> btd_device \<Rightarrow> btd_device \<times> bool" where
  "remove_connection_finish opts current t reason dev8 =
     (let dev9 = device_update_last_seen opts current t True dev8;
          dev10 = device_disconnected reason (dev9\<lparr>eir_uuids := []\<rparr>);
          dev11 = emit (PropertyChanged ''Connected'') dev10
      in reply_disconnects (disconnects dev11) False dev11)"

text \<open>
  \<open>device_remove_connection\<close>; the second component is \<open>True\<close> when \<open>*remove\<close> is set.
\<close>

definition device_remove_connection ::
  "btd_opts \<Rightarrow> time_t \<Rightarrow> uint8_t \<Rightarrow> uint8_t \<Rightarrow> btd_device \<Rightarrow> btd_device \<times> bool" where
  "device_remove_connection opts current t reason dev =
     (if \<not> connected (get_state dev t) then (dev, False)
      else
        (let dev8 = remove_connection_unpair (remove_connection_link t reason dev)
         in if connected (bredr_state dev8) \<or> connected (le_state dev8) then (dev8, False)
            else remove_connection_finish opts current t reason dev8))"

subsection \<open>Pairing and service resolution\<close>

definition device_is_paired :: "btd_device \<Rightarrow> uint8_t \<Rightarrow> bool" where
  "device_is_paired dev t = paired (get_state dev t)"

definition device_set_paired :: "uint8_t \<Rightarrow> btd_device \<Rightarrow> btd_device" where
  "device_set_paired t dev =
     (if paired (get_state dev t) then dev
      else
        (let dev1 = set_state t ((get_state dev t)\<lparr>paired := True\<rparr>) dev;
             dev2 = emit (BearerPaired (bearer_of t)) dev1
         in if paired (bredr_state dev2) = paired (le_state dev2) then dev2
            else if \<not> svc_resolved (get_state dev2 t) then dev2\<lparr>pending_paired := True\<rparr>
            else emit (PropertyChanged ''Paired'') dev2))"

text \<open>
  \<open>device_svc_resolved\<close> up to the point where it hands over to the browse request, the
  queued service callbacks and the drivers: the bearer is marked resolved, the
  ServicesResolved and the deferred Paired changes are sent, and the device is stored.
\<close>

definition device_svc_resolved :: "uint8_t \<Rightarrow> int \<Rightarrow> btd_device \<Rightarrow> btd_device" where
  "device_svc_resolved t err dev =
     (let dev1 = set_state t ((get_state dev t)\<lparr>svc_resolved := True\<rparr>) dev;
          dev2 = (if connected (get_state dev1 t) then device_set_svc_refreshed True dev1
                  else dev1);
          dev3 = dev2\<lparr>eir_uuids := []\<rparr>;
          dev4 = (if pending_paired dev3
                  then (emit (PropertyChanged ''Paired'')
                          (emit (BearerPaired (bearer_of t)) dev3))\<lparr>pending_paired := False\<rparr>
                  else dev3)
      in if \<not> temporary dev4
         then (let dev5 = store_device_info dev4
               in if t \<noteq> BDADDR_BREDR \<and> err = 0 then emit StoreServices dev5 else dev5)
         else dev4)"

text \<open>
  The branch of \<open>browse_request_complete\<close> for a browse that a Pair request started: it
  is what \<open>device_svc_resolved\<close> runs next when \<open>dev->browse\<close> carries the Pair message.
\<close>

definition browse_request_complete_pair :: "uint8_t \<Rightarrow> btd_device \<Rightarrow> btd_device" where
  "browse_request_complete_pair t dev =
     (if \<not> device_is_paired dev t
      then (emit (SendReply Pair Failed) dev)\<lparr>browse := None\<rparr>
      else
        (let dev1 = (if pending_paired dev
                     then (emit (PropertyChanged ''Paired'')
                             (emit (BearerPaired (bearer_of t)) dev))\<lparr>pending_paired := False\<rparr>
                     else dev)
         in (emit (SendReply Pair MethodReturn) dev1)\<lparr>browse := None\<rparr>))"

text \<open>How often an event occurs in a trace.\<close>

definition occurrences :: "event \<Rightarrow> event list \<Rightarrow> nat" where
  "occurrences e es = length (filter (\<lambda>x. x = e) es)"

subsection \<open>Pair, Connect and ConnectProfile\<close>

definition bonding_request_free :: "btd_device \<Rightarrow> btd_device" where
  "bonding_request_free dev =
     (case bonding dev of
        None \<Rightarrow> dev
      | Some b \<Rightarrow>
          (case bonding_agent b of
             None \<Rightarrow> dev
           | Some a \<Rightarrow> emit (AgentCancel a) dev)\<lparr>bonding := None\<rparr>)"

text \<open>The choice of the bearer in \<open>pair_device\<close>.\<close>

definition pair_bearer :: "time_t \<Rightarrow> btd_device \<Rightarrow> uint8_t" where
  "pair_bearer current dev =
     (if bredr dev \<and> le dev
      then (if bonded (bredr_state dev) then bdaddr_type dev
            else if bonded (le_state dev) then BDADDR_BREDR
            else select_conn_bearer current dev)
      else bdaddr_type dev)"

text \<open>
  The choice as the specification words it: the only bearer present; on a device with
  both bearers and exactly one of them bonded, the other one; otherwise the selection
  the specification gives for Connect, \<open>spec_select_conn_bearer\<close>. The LE bearer is
  named by the device's address type. It is written from the specification's words, to
  be compared with \<open>pair_bearer\<close>.
\<close>

definition spec_pair_bearer :: "time_t \<Rightarrow> btd_device \<Rightarrow> uint8_t" where
  "spec_pair_bearer now dev =
     (if bredr dev \<and> \<not> le dev then BDADDR_BREDR
      else if le dev \<and> \<not> bredr dev then bdaddr_type dev
      else if bonded (bredr_state dev) \<and> \<not> bonded (le_state dev) then bdaddr_type dev
      else if bonded (le_state dev) \<and> \<not> bonded (bredr_state dev) then BDADDR_BREDR
      else spec_select_conn_bearer now dev)"

text \<open>
  \<open>pair_device\<close>. The reply is \<open>None\<close> when the request stays pending.
  \<open>device_connect_le\<close> is taken by its result: the event \<open>ConnectLE\<close> and an error code.
\<close>

definition pair_device ::
  "btd_opts \<Rightarrow> ext \<Rightarrow> time_t \<Rightarrow> btd_device \<Rightarrow> btd_device \<times> dbus_reply option" where
  "pair_device opts x current dev0 =
     (let dev = btd_device_set_temporary opts False dev0
      in if \<not> args_ok x then (dev, Some InvalidArguments)
         else if bonding dev \<noteq> None \<or> connect dev \<noteq> None then (dev, Some InProgress)
         else
           (let t = pair_bearer current dev;
                state = get_state dev t
            in if bonded state then (dev, Some AlreadyExists)
               else
                 (let dev1 = dev\<lparr>bonding := Some \<lparr>bonding_msg = Pair, bonding_bdaddr_type = t,
                                                   bonding_agent = sender_agent x\<rparr>\<rparr>;
                      (dev2, err) =
                        (if t \<noteq> BDADDR_BREDR
                         then
                           (let dev3 = (if disable_auto_connect dev1
                                        then device_set_auto_connect True
                                               (dev1\<lparr>disable_auto_connect := False\<rparr>)
                                        else dev1)
                            in if \<not> connected state \<and> le_connect_before_pairing x
                               then (emit ConnectLE dev3, connect_le_err x)
                               else if \<not> connected state \<or> \<not> set_security_ok x
                               then (emit (AdapterCreateBonding (bdaddr_type dev3)) dev3,
                                     create_bonding_err x)
                               else (dev3, 0))
                         else (emit (AdapterCreateBonding BDADDR_BREDR) dev1,
                               create_bonding_err x))
                  in if err < 0 then (bonding_request_free dev2, Some Failed)
                     else (dev2, None))))"

text \<open>\<open>find_service_with_state\<close>: the rest of the list from the first match on.\<close>

fun find_service_with_state ::
  "btd_service_state_t list \<Rightarrow> btd_service_state_t \<Rightarrow> btd_service_state_t list option" where
  "find_service_with_state [] s = None"
| "find_service_with_state (x # xs) s =
     (if x = s then Some (x # xs) else find_service_with_state xs s)"

text \<open>
  \<open>connect_profiles\<close>. After its two checks and the change of the temporary flag the
  function looks up services, connects them or starts a browse; that part runs in the
  service, SDP and GATT layers and is the parameter \<open>resolve\<close>.
\<close>

definition connect_profiles ::
  "btd_opts \<Rightarrow> (uint8_t \<Rightarrow> dbus_method \<Rightarrow> string option \<Rightarrow> btd_device
     \<Rightarrow> btd_device \<times> dbus_reply option)
   \<Rightarrow> btd_device \<Rightarrow> uint8_t \<Rightarrow> dbus_method \<Rightarrow> string option
   \<Rightarrow> btd_device \<times> dbus_reply option" where
  "connect_profiles opts resolve dev t msg uuid =
     (if pending dev \<noteq> [] \<or> connect dev \<noteq> None \<or> browse dev \<noteq> None
      then (dev, Some InProgress)
      else if \<not> adapter_powered dev then (dev, Some NotReady)
      else resolve t msg uuid (btd_device_set_temporary opts False dev))"

text \<open>The choice of the bearer in \<open>dev_connect\<close>.\<close>

definition connect_bearer :: "time_t \<Rightarrow> btd_device \<Rightarrow> uint8_t" where
  "connect_bearer current dev =
     (if connected (bredr_state dev)
      then (if svc_resolved (bredr_state dev) \<and>
               find_service_with_state (services dev) BTD_SERVICE_STATE_CONNECTED \<noteq> None
            then bdaddr_type dev
            else BDADDR_BREDR)
      else if connected (le_state dev) \<and> bredr dev then BDADDR_BREDR
      else select_conn_bearer current dev)"

definition dev_connect ::
  "btd_opts \<Rightarrow> (uint8_t \<Rightarrow> dbus_method \<Rightarrow> string option \<Rightarrow> btd_device
     \<Rightarrow> btd_device \<times> dbus_reply option)
   \<Rightarrow> ext \<Rightarrow> time_t \<Rightarrow> btd_device \<Rightarrow> btd_device \<times> dbus_reply option" where
  "dev_connect opts resolve x current dev =
     (if bonding dev \<noteq> None then (dev, Some InProgress)
      else
        (let t = connect_bearer current dev
         in if t \<noteq> BDADDR_BREDR
            then
              (if connect dev \<noteq> None then (dev, Some InProgress)
               else if connected (le_state dev) then (dev, Some MethodReturn)
               else
                 (let dev1 = btd_device_set_temporary opts False dev;
                      dev2 = (if disable_auto_connect dev1
                              then device_set_auto_connect True
                                     (dev1\<lparr>disable_auto_connect := False\<rparr>)
                              else dev1);
                      dev3 = emit ConnectLE dev2
                  in if connect_le_err x < 0 then (dev3, Some Failed)
                     else (dev3\<lparr>connect := Some Connect\<rparr>, None)))
            else connect_profiles opts resolve dev t Connect None))"

text \<open>
  \<open>connect_profile\<close>, the handler of ConnectProfile; \<open>uuid\<close> is \<open>None\<close> when the
  argument is missing or is not a profile name.
\<close>

definition connect_profile ::
  "btd_opts \<Rightarrow> (uint8_t \<Rightarrow> dbus_method \<Rightarrow> string option \<Rightarrow> btd_device
     \<Rightarrow> btd_device \<times> dbus_reply option)
   \<Rightarrow> string option \<Rightarrow> btd_device \<Rightarrow> btd_device \<times> dbus_reply option" where
  "connect_profile opts resolve uuid dev =
     (case uuid of
        None \<Rightarrow> (dev, Some InvalidArguments)
      | Some u \<Rightarrow> connect_profiles opts resolve dev BDADDR_BREDR ConnectProfile (Some u))"

subsection \<open>Numeric comparison\<close>

text \<open>
  \<open>new_auth\<close> returns the request it has stored in \<open>dev->authr\<close>; here the request
  and the device that holds it.
\<close>

definition new_auth ::
  "ext \<Rightarrow> uint8_t \<Rightarrow> auth_type_t \<Rightarrow> bool \<Rightarrow> btd_device
   \<Rightarrow> (authentication_req \<times> btd_device) option" where
  "new_auth x ty kind sec dev =
     (if authr dev \<noteq> None then None
      else
        (let ag = (case bonding dev of
                     None \<Rightarrow> default_agent x
                   | Some b \<Rightarrow> (if bonding_agent b \<noteq> None then bonding_agent b
                                else default_agent x))
         in case ag of
              None \<Rightarrow> None
            | Some a \<Rightarrow>
                (let auth = \<lparr>auth_type = kind, auth_agent = Some a, addr_type = ty,
                              passkey = 0, secure = sec\<rparr>
                 in Some (auth, dev\<lparr>authr := Some auth\<rparr>))))"

text \<open>\<open>confirm_cb\<close> called without an error, as \<open>device_confirm_passkey\<close> calls it.\<close>

definition confirm_cb :: "btd_device \<Rightarrow> btd_device" where
  "confirm_cb dev =
     (case authr dev of
        None \<Rightarrow> dev
      | Some a \<Rightarrow>
          (if auth_agent a = None then dev
           else (emit (AdapterConfirmReply (addr_type a) True) dev)
                  \<lparr>authr := Some (a\<lparr>auth_agent := None\<rparr>)\<rparr>))"

definition device_auth_req_free :: "btd_device \<Rightarrow> btd_device" where
  "device_auth_req_free dev = dev\<lparr>authr := None\<rparr>"

text \<open>
  \<open>device_confirm_passkey\<close>; the result is the device and the returned error code. The
  agent's answer to the request comes later, through \<open>confirm_cb\<close>; the call itself
  returns \<open>agent_request_err\<close>.
\<close>

definition device_confirm_passkey ::
  "btd_opts \<Rightarrow> ext \<Rightarrow> uint8_t \<Rightarrow> uint32_t \<Rightarrow> uint8_t \<Rightarrow> btd_device \<Rightarrow> btd_device \<times> int" where
  "device_confirm_passkey opts x ty pk confirm_hint dev =
     (if confirm_hint \<noteq> 0 \<and> device_is_paired dev ty \<and> jw_repairing opts = JW_REPAIRING_NEVER
      then (emit (AdapterConfirmReply ty False) dev, 0)
      else if confirm_hint \<noteq> 0 \<and> device_is_paired dev ty \<and>
              jw_repairing opts = JW_REPAIRING_ALWAYS
      then (emit (AdapterConfirmReply ty True) dev, 0)
      else
        (case new_auth x ty AUTH_TYPE_CONFIRM False dev of
           None \<Rightarrow> (dev, - EPERM)
         | Some (auth0, dev1) \<Rightarrow>
             (let auth = auth0\<lparr>passkey := pk\<rparr>;
                  dev2 = dev1\<lparr>authr := Some auth\<rparr>
              in if confirm_hint \<noteq> 0 \<and> bonding dev2 \<noteq> None
                 then (emit (AdapterConfirmReply ty True) dev2, 0)
                 else
                   (let dev3 = (if confirm_hint \<noteq> 0
                                then emit (AgentRequestAuthorization (auth_agent auth)) dev2
                                else emit (AgentRequestConfirmation (auth_agent auth) pk) dev2);
                        err = agent_request_err x
                    in if err < 0
                       then (if err = - EINPROGRESS then (confirm_cb dev3, 0)
                             else (device_auth_req_free dev3, err))
                       else (dev3, err)))))"

text \<open>A bearer state with every flag clear, and a device with nothing in flight.\<close>

definition bearer_state0 :: bearer_state where
  "bearer_state0 =
     \<lparr>prefer' = False, paired = False, bonded = False, connected = False,
      svc_resolved = False, initiator = False, connectable = False,
      last_seen = 0, last_used = 0\<rparr>"

definition device0 :: btd_device where
  "device0 =
     \<lparr>bdaddr = [1, 2, 3, 4, 5, 6], bdaddr_type = BDADDR_LE_PUBLIC,
      bredr = True, le = True, pending_paired = False, svc_refreshed = False,
      eir_uuids = [], appearance = 0, primaries = [], services = [], pending = [],
      temporary = False, disconn_timer = 0, temporary_timer = 0,
      browse = None, bonding = None, authr = None, disconnects = [],
      connect = None, attrib = False, prefer_bearer = 0,
      bredr_state = bearer_state0, le_state = bearer_state0,
      local_csrk = None, remote_csrk = None,
      auto_connect = False, disable_auto_connect = False, general_connect = False,
      rssi = 0, store_id = 0, adapter_powered = True, adapter_bredr = True,
      trace = []\<rparr>"

subsection \<open>Sample devices\<close>

definition sample_opts :: btd_opts where
  "sample_opts = \<lparr>tmpto = 30, jw_repairing = JW_REPAIRING_NEVER\<rparr>"

text \<open>BR/EDR preferred by the user, LE alone bonded.\<close>

definition c1_dev :: btd_device where
  "c1_dev = device0\<lparr>bredr_state := bearer_state0\<lparr>prefer' := True\<rparr>,
                     le_state := bearer_state0\<lparr>bonded := True\<rparr>\<rparr>"

text \<open>Both bearers seen ten seconds ago, on an adapter without BR/EDR.\<close>

definition c1_dev_tie :: btd_device where
  "c1_dev_tie = device0\<lparr>adapter_bredr := False,
      bredr_state := bearer_state0\<lparr>connectable := True, last_seen := 990\<rparr>,
      le_state := bearer_state0\<lparr>connectable := True, last_seen := 990\<rparr>\<rparr>"

text \<open>BR/EDR seen ten seconds ago and LE twenty seconds ago.\<close>

definition c1_dev_fresh :: btd_device where
  "c1_dev_fresh = device0\<lparr>
      bredr_state := bearer_state0\<lparr>connectable := True, last_seen := 990\<rparr>,
      le_state := bearer_state0\<lparr>connectable := True, last_seen := 980\<rparr>\<rparr>"

text \<open>BR/EDR seen 400 seconds ago, LE never seen.\<close>

definition c1_dev_stale :: btd_device where
  "c1_dev_stale = device0\<lparr>
      bredr_state := bearer_state0\<lparr>connectable := True, last_seen := 600\<rparr>\<rparr>"

text \<open>A remote signature key delivered with counter 5.\<close>

definition c3_dev :: btd_device where
  "c3_dev = device_set_csrk sample_opts (replicate 16 0) 5 1 False device0"

text \<open>A local signature key with counter 41 and no remote key; the same at the last counter.\<close>

definition c3_local_dev :: btd_device where
  "c3_local_dev = device_set_csrk sample_opts (replicate 16 0) 41 0 False device0"

definition c3_local_dev_last :: btd_device where
  "c3_local_dev_last = device_set_csrk sample_opts (replicate 16 0) 0xFFFFFFFF 0 False device0"

text \<open>A temporary LE device with a resolvable private address.\<close>

definition c10_dev :: btd_device where
  "c10_dev = device0\<lparr>bdaddr := [0x11, 0x22, 0x33, 0x44, 0x55, 0x4A],
                      bdaddr_type := BDADDR_LE_RANDOM, bredr := False, temporary := True\<rparr>"

text \<open>Outside results of a request that goes through: arguments parse, agent 1 answers.\<close>

definition sample_ext :: ext where
  "sample_ext = \<lparr>args_ok = True, sender_agent = Some 1, default_agent = Some 1,
      le_connect_before_pairing = False, connect_le_err = 0, set_security_ok = True,
      create_bonding_err = 0, agent_request_err = 0\<rparr>"

text \<open>A continuation of \<open>connect_profiles\<close> that leaves the request pending.\<close>

definition resolve_pending ::
  "uint8_t \<Rightarrow> dbus_method \<Rightarrow> string option \<Rightarrow> btd_device \<Rightarrow> btd_device \<times> dbus_reply option" where
  "resolve_pending t msg uuid dev = (dev, None)"

text \<open>An SDP browse started by a Connect request is outstanding.\<close>

definition c2_dev :: btd_device where
  "c2_dev = device0\<lparr>browse := Some \<lparr>browse_kind = BROWSE_SDP, browse_msg = Some Connect\<rparr>\<rparr>"

text \<open>Connected over LE and paired there, but not bonded.\<close>

definition c4_dev :: btd_device where
  "c4_dev = device0\<lparr>le_state := bearer_state0\<lparr>connected := True, paired := True\<rparr>\<rparr>"

text \<open>Paired and bonded on BR/EDR, with the BR/EDR services resolved; nothing yet on LE.\<close>

definition c5_dev :: btd_device where
  "c5_dev = device0\<lparr>bredr_state :=
      bearer_state0\<lparr>paired := True, bonded := True, svc_resolved := True\<rparr>\<rparr>"

text \<open>Nothing bonded, both bearers seen ten seconds ago, adapter without BR/EDR.\<close>

definition c7_dev_tie :: btd_device where
  "c7_dev_tie = device0\<lparr>adapter_bredr := False,
      bredr_state := bearer_state0\<lparr>connectable := True, last_seen := 990\<rparr>,
      le_state := bearer_state0\<lparr>connectable := True, last_seen := 990\<rparr>\<rparr>"

text \<open>Bonded on LE only, and bonded on both bearers.\<close>

definition c7_dev :: btd_device where
  "c7_dev = device0\<lparr>le_state := bearer_state0\<lparr>paired := True, bonded := True\<rparr>\<rparr>"

definition c7_dev_both :: btd_device where
  "c7_dev_both = c7_dev\<lparr>bredr_state := bearer_state0\<lparr>paired := True, bonded := True\<rparr>\<rparr>"

text \<open>A bonding started by Pair is in progress, with the agent of the caller.\<close>

definition c8_dev :: btd_device where
  "c8_dev = device0\<lparr>bonding := Some \<lparr>bonding_msg = Pair,
      bonding_bdaddr_type = BDADDR_LE_PUBLIC, bonding_agent = Some 1\<rparr>\<rparr>"

definition c8_dev_paired :: btd_device where
  "c8_dev_paired = c8_dev\<lparr>le_state := bearer_state0\<lparr>paired := True\<rparr>\<rparr>"

section \<open>Properties\<close>

lemmas bdaddr_defs = BDADDR_BREDR_def BDADDR_LE_PUBLIC_def BDADDR_LE_RANDOM_def

subsection \<open>Trace and field lemmas\<close>

lemma occurrences_emit [simp]:
  "occurrences e (trace (emit e' dev)) = occurrences e (trace dev) + (if e' = e then 1 else 0)"
  by (simp add: occurrences_def emit_def)

lemma emit_fields [simp]:
  "bredr_state (emit e dev) = bredr_state dev"
  "le_state (emit e dev) = le_state dev"
  "bdaddr_type (emit e dev) = bdaddr_type dev"
  "bdaddr (emit e dev) = bdaddr dev"
  "bredr (emit e dev) = bredr dev"
  "le (emit e dev) = le dev"
  "pending_paired (emit e dev) = pending_paired dev"
  "temporary (emit e dev) = temporary dev"
  "temporary_timer (emit e dev) = temporary_timer dev"
  "disconn_timer (emit e dev) = disconn_timer dev"
  "connect (emit e dev) = connect dev"
  "pending (emit e dev) = pending dev"
  "svc_refreshed (emit e dev) = svc_refreshed dev"
  "disconnects (emit e dev) = disconnects dev"
  "store_id (emit e dev) = store_id dev"
  "browse (emit e dev) = browse dev"
  "bonding (emit e dev) = bonding dev"
  "authr (emit e dev) = authr dev"
  "appearance (emit e dev) = appearance dev"
  "remote_csrk (emit e dev) = remote_csrk dev"
  "local_csrk (emit e dev) = local_csrk dev"
  "adapter_bredr (emit e dev) = adapter_bredr dev"
  "adapter_powered (emit e dev) = adapter_powered dev"
  "auto_connect (emit e dev) = auto_connect dev"
  "disable_auto_connect (emit e dev) = disable_auto_connect dev"
  "attrib (emit e dev) = attrib dev"
  "prefer_bearer (emit e dev) = prefer_bearer dev"
  "primaries (emit e dev) = primaries dev"
  "services (emit e dev) = services dev"
  by (simp_all add: emit_def)

lemma store_device_info_fields [simp]:
  "remote_csrk (store_device_info dev) = remote_csrk dev"
  "local_csrk (store_device_info dev) = local_csrk dev"
  "appearance (store_device_info dev) = appearance dev"
  "bredr_state (store_device_info dev) = bredr_state dev"
  "le_state (store_device_info dev) = le_state dev"
  "bdaddr_type (store_device_info dev) = bdaddr_type dev"
  "bdaddr (store_device_info dev) = bdaddr dev"
  "bredr (store_device_info dev) = bredr dev"
  "le (store_device_info dev) = le dev"
  "pending_paired (store_device_info dev) = pending_paired dev"
  "temporary (store_device_info dev) = temporary dev"
  "connect (store_device_info dev) = connect dev"
  "pending (store_device_info dev) = pending dev"
  "browse (store_device_info dev) = browse dev"
  "bonding (store_device_info dev) = bonding dev"
  "adapter_bredr (store_device_info dev) = adapter_bredr dev"
  by (simp_all add: store_device_info_def)

lemma occurrences_store_device_info [simp]:
  "e \<noteq> IdleAddStoreDeviceInfo \<Longrightarrow>
   occurrences e (trace (store_device_info dev)) = occurrences e (trace dev)"
  by (simp add: store_device_info_def)

subsection \<open>Bearer selection for Connect\<close>

text \<open>
  Claim C1, as stated, fails. With the BR/EDR \<open>prefer\<close> flag set and only LE bonded,
  the order of the specification picks LE, the bonded bearer; the code tests the BR/EDR
  flag first and picks BR/EDR. And with both bearers seen equally long ago, the
  specification gives the tie to BR/EDR, while the code picks LE when the adapter has
  BR/EDR disabled.
\<close>

theorem C1_counterexample:
  "bredr c1_dev \<and> le c1_dev \<and> bonded (le_state c1_dev) \<and> \<not> bonded (bredr_state c1_dev) \<and>
   spec_select_conn_bearer 1000 c1_dev = BDADDR_LE_PUBLIC \<and>
   select_conn_bearer 1000 c1_dev = BDADDR_BREDR \<and>
   BDADDR_BREDR \<noteq> BDADDR_LE_PUBLIC \<and>
   spec_select_conn_bearer 1000 c1_dev_tie = BDADDR_BREDR \<and>
   select_conn_bearer 1000 c1_dev_tie = BDADDR_LE_PUBLIC"
  by (simp add: c1_dev_def c1_dev_tie_def device0_def bearer_state0_def select_conn_bearer_def
      spec_select_conn_bearer_def spec_freshness_def seen_age_def NVAL_TIME_def
      SEEN_TRESHHOLD_def bdaddr_defs)

text \<open>
  On a device with both bearers, no \<open>prefer\<close> flag and the bearers bonded alike,
  \<open>select_conn_bearer\<close> in terms of the fields it reads. The age of a bearer is known
  when the bearer is connectable, has been seen, and the time since is at most 300
  seconds and is not the value \<open>-1\<close> that the code keeps for unknown.
\<close>

lemma select_conn_bearer_fresh:
  assumes "bredr dev" and "le dev"
    and "\<not> prefer' (bredr_state dev)" and "\<not> prefer' (le_state dev)"
    and "bonded (bredr_state dev) = bonded (le_state dev)"
  shows "select_conn_bearer current dev =
     (if bdaddr_type dev = BDADDR_LE_RANDOM then bdaddr_type dev
      else if \<not> (connectable (le_state dev) \<and> last_seen (le_state dev) \<noteq> 0 \<and>
                 current - last_seen (le_state dev) \<le> 300 \<and>
                 current - last_seen (le_state dev) \<noteq> - 1)
      then (if \<not> (connectable (bredr_state dev) \<and> last_seen (bredr_state dev) \<noteq> 0 \<and>
                    current - last_seen (bredr_state dev) \<le> 300 \<and>
                    current - last_seen (bredr_state dev) \<noteq> - 1)
            then bdaddr_type dev
            else BDADDR_BREDR)
      else if \<not> (connectable (bredr_state dev) \<and> last_seen (bredr_state dev) \<noteq> 0 \<and>
                    current - last_seen (bredr_state dev) \<le> 300 \<and>
                    current - last_seen (bredr_state dev) \<noteq> - 1)
      then bdaddr_type dev
      else if current - last_seen (bredr_state dev) \<le> current - last_seen (le_state dev) \<and>
              adapter_bredr dev
      then BDADDR_BREDR
      else bdaddr_type dev)"
  using assms
  by (auto simp add: select_conn_bearer_def seen_age_def Let_def NVAL_TIME_def
      SEEN_TRESHHOLD_def)

text \<open>
  Claim C1, amended: on a device with both bearers, \<open>select_conn_bearer\<close> picks BR/EDR
  when the BR/EDR \<open>prefer\<close> flag is set or BR/EDR alone is bonded; otherwise LE when
  the LE \<open>prefer\<close> flag is set or LE alone is bonded; otherwise LE for an LE random
  address; otherwise freshness decides. The freshness of a bearer is the time from
  \<open>last_seen\<close> to now; it is known for a connectable bearer that has been seen
  (\<open>last_seen\<close> not zero) at most 300 seconds ago, the difference \<open>-1\<close> (the value the
  code keeps for unknown) excepted, and unknown otherwise. With both unknown the bearer of
  the address type is picked, with one unknown the other bearer, and with both known
  BR/EDR when its freshness is not greater and the adapter has BR/EDR enabled, LE if not.
\<close>

theorem C1_select_conn_bearer:
  assumes "bredr dev" and "le dev"
  shows "(prefer' (bredr_state dev) \<or> (bonded (bredr_state dev) \<and> \<not> bonded (le_state dev))
            \<longrightarrow> select_conn_bearer current dev = BDADDR_BREDR) \<and>
         (\<not> prefer' (bredr_state dev) \<and> (bonded (bredr_state dev) \<longrightarrow> bonded (le_state dev)) \<and>
          (prefer' (le_state dev) \<or> (bonded (le_state dev) \<and> \<not> bonded (bredr_state dev)))
            \<longrightarrow> select_conn_bearer current dev = bdaddr_type dev) \<and>
         (\<not> prefer' (bredr_state dev) \<and> \<not> prefer' (le_state dev) \<and>
          bonded (bredr_state dev) = bonded (le_state dev)
            \<longrightarrow> select_conn_bearer current dev =
                 (if bdaddr_type dev = BDADDR_LE_RANDOM then bdaddr_type dev
                  else if \<not> (connectable (le_state dev) \<and> last_seen (le_state dev) \<noteq> 0 \<and>
                             current - last_seen (le_state dev) \<le> 300 \<and>
                             current - last_seen (le_state dev) \<noteq> - 1)
                  then (if \<not> (connectable (bredr_state dev) \<and>
                                last_seen (bredr_state dev) \<noteq> 0 \<and>
                                current - last_seen (bredr_state dev) \<le> 300 \<and>
                                current - last_seen (bredr_state dev) \<noteq> - 1)
                        then bdaddr_type dev
                        else BDADDR_BREDR)
                  else if \<not> (connectable (bredr_state dev) \<and>
                                last_seen (bredr_state dev) \<noteq> 0 \<and>
                                current - last_seen (bredr_state dev) \<le> 300 \<and>
                                current - last_seen (bredr_state dev) \<noteq> - 1)
                  then bdaddr_type dev
                  else if current - last_seen (bredr_state dev) \<le>
                            current - last_seen (le_state dev) \<and>
                          adapter_bredr dev
                  then BDADDR_BREDR
                  else bdaddr_type dev))"
proof -
  have a: "prefer' (bredr_state dev) \<or> (bonded (bredr_state dev) \<and> \<not> bonded (le_state dev))
            \<longrightarrow> select_conn_bearer current dev = BDADDR_BREDR"
    by (auto simp add: select_conn_bearer_def)
  have b: "\<not> prefer' (bredr_state dev) \<and> (bonded (bredr_state dev) \<longrightarrow> bonded (le_state dev)) \<and>
          (prefer' (le_state dev) \<or> (bonded (le_state dev) \<and> \<not> bonded (bredr_state dev)))
            \<longrightarrow> select_conn_bearer current dev = bdaddr_type dev"
    by (auto simp add: select_conn_bearer_def)
  from a b select_conn_bearer_fresh [OF assms, of current] show ?thesis
    by blast
qed

theorem C1_select_conn_bearer_witness:
  "bredr c1_dev \<and> le c1_dev \<and> bredr c1_dev_tie \<and> le c1_dev_tie \<and>
   bredr c1_dev_fresh \<and> le c1_dev_fresh \<and> bredr c1_dev_stale \<and> le c1_dev_stale \<and>
   select_conn_bearer 1000 c1_dev = BDADDR_BREDR \<and>
   select_conn_bearer 1000 c1_dev_tie = BDADDR_LE_PUBLIC \<and>
   select_conn_bearer 1000 c1_dev_fresh = BDADDR_BREDR \<and>
   select_conn_bearer 1000 (c1_dev_fresh\<lparr>bredr_state := bearer_state0\<rparr>) = BDADDR_LE_PUBLIC \<and>
   select_conn_bearer 1000 c1_dev_stale = BDADDR_LE_PUBLIC \<and>
   select_conn_bearer 900 c1_dev_stale = BDADDR_BREDR"
  using C1_select_conn_bearer [of c1_dev 1000] C1_select_conn_bearer [of c1_dev_tie 1000]
    C1_select_conn_bearer [of c1_dev_fresh 1000]
    C1_select_conn_bearer [of "c1_dev_fresh\<lparr>bredr_state := bearer_state0\<rparr>" 1000]
    C1_select_conn_bearer [of c1_dev_stale 1000] C1_select_conn_bearer [of c1_dev_stale 900]
  by (simp add: c1_dev_def c1_dev_tie_def c1_dev_fresh_def c1_dev_stale_def device0_def
      bearer_state0_def bdaddr_defs)

subsection \<open>Signature counters\<close>

lemma remote_counter_step:
  "remote_csrk dev = Some k \<Longrightarrow>
   remote_counter c dev =
     (if c < counter k then (False, dev)
      else (True, store_device_info (dev\<lparr>remote_csrk := Some (k\<lparr>counter := c\<rparr>)\<rparr>)))"
  by (simp add: remote_counter_def)

lemma remote_counter_count:
  "remote_csrk dev = Some k \<Longrightarrow>
   remote_count (snd (remote_counter c dev)) = max (remote_count dev) c \<and>
   fst (remote_counter c dev) = (remote_count dev \<le> c) \<and>
   (\<exists>k'. remote_csrk (snd (remote_counter c dev)) = Some k')"
  by (auto simp add: remote_counter_step remote_count_def max_def)

lemma remote_counters_max:
  "remote_csrk dev = Some k \<Longrightarrow>
   remote_count (snd (remote_counters cs dev)) =
     Max (insert (remote_count dev) (set (accepted cs (fst (remote_counters cs dev)))))"
proof (induction cs arbitrary: dev k)
  case Nil
  then show ?case by simp
next
  case (Cons c cs)
  obtain ok dev1 where s: "remote_counter c dev = (ok, dev1)"
    by (cases "remote_counter c dev")
  from remote_counter_count [OF Cons.prems, of c] s
  obtain k' where k': "remote_csrk dev1 = Some k'"
    and cnt: "remote_count dev1 = max (remote_count dev) c"
    and ok: "ok = (remote_count dev \<le> c)"
    by auto
  obtain oks dev2 where r: "remote_counters cs dev1 = (oks, dev2)"
    by (cases "remote_counters cs dev1")
  from Cons.IH [OF k'] r
  have ih: "remote_count dev2 = Max (insert (remote_count dev1) (set (accepted cs oks)))"
    by simp
  show ?case
  proof (cases ok)
    case True
    with ok cnt have "remote_count dev1 = c" by (simp add: max_def)
    moreover have "Max (insert c (set (accepted cs oks))) =
          Max (insert (remote_count dev) (insert c (set (accepted cs oks))))"
    proof -
      have "c \<le> Max (insert c (set (accepted cs oks)))" by simp
      with True ok have "remote_count dev \<le> Max (insert c (set (accepted cs oks)))"
        by (meson order_trans)
      then have "max (remote_count dev) (Max (insert c (set (accepted cs oks)))) =
            Max (insert c (set (accepted cs oks)))"
        by (rule max_absorb2)
      moreover have "Max (insert (remote_count dev) (insert c (set (accepted cs oks)))) =
            max (remote_count dev) (Max (insert c (set (accepted cs oks))))"
        by (rule Max_insert) simp_all
      ultimately show ?thesis by simp
    qed
    ultimately show ?thesis using s r ih True by simp
  next
    case False
    with ok cnt have "remote_count dev1 = remote_count dev" by (simp add: max_def)
    then show ?thesis using s r ih False by simp
  qed
qed

lemma local_counter_step:
  "local_csrk dev = Some l \<Longrightarrow>
   fst (local_counter dev) = Some (counter l) \<and>
   local_csrk (snd (local_counter dev)) = Some (l\<lparr>counter := counter l + 1\<rparr>)"
  by (simp add: local_counter_def)

lemma c3_dev_csrk:
  "remote_csrk c3_dev = Some \<lparr>key = replicate 16 0, counter = 5, auth = False\<rparr>"
  by (simp add: c3_dev_def device_set_csrk_def device0_def Let_def)

text \<open>
  Claim C3: with a remote signature key stored, a received counter not below the stored
  one is accepted and becomes the stored counter; a lower one is rejected and changes
  nothing; after any sequence of received counters the stored counter is the greatest of
  the initial counter and the accepted ones. Without a remote key every received counter
  is rejected. With a local key stored, whether or not a remote key is, \<open>local_counter\<close>
  hands out the stored counter and stores its successor (in 32-bit arithmetic); without
  a local key it fails and changes nothing.
\<close>

theorem C3_csrk_counters:
  "(\<forall>k. remote_csrk dev = Some k \<longrightarrow>
      (counter k \<le> c \<longrightarrow>
         fst (remote_counter c dev) \<and>
         remote_csrk (snd (remote_counter c dev)) = Some (k\<lparr>counter := c\<rparr>)) \<and>
      (c < counter k \<longrightarrow> remote_counter c dev = (False, dev)) \<and>
      remote_count (snd (remote_counters cs dev)) =
        Max (insert (counter k) (set (accepted cs (fst (remote_counters cs dev)))))) \<and>
   (remote_csrk dev = None \<longrightarrow> remote_counter c dev = (False, dev)) \<and>
   (\<forall>l. local_csrk dev = Some l \<longrightarrow>
      fst (local_counter dev) = Some (counter l) \<and>
      local_csrk (snd (local_counter dev)) = Some (l\<lparr>counter := counter l + 1\<rparr>)) \<and>
   (local_csrk dev = None \<longrightarrow> local_counter dev = (None, dev))"
proof -
  have r: "\<forall>k. remote_csrk dev = Some k \<longrightarrow>
      (counter k \<le> c \<longrightarrow>
         fst (remote_counter c dev) \<and>
         remote_csrk (snd (remote_counter c dev)) = Some (k\<lparr>counter := c\<rparr>)) \<and>
      (c < counter k \<longrightarrow> remote_counter c dev = (False, dev)) \<and>
      remote_count (snd (remote_counters cs dev)) =
        Max (insert (counter k) (set (accepted cs (fst (remote_counters cs dev)))))"
  proof (intro allI impI)
    fix k
    assume k: "remote_csrk dev = Some k"
    have a: "counter k \<le> c \<longrightarrow>
            fst (remote_counter c dev) \<and>
            remote_csrk (snd (remote_counter c dev)) = Some (k\<lparr>counter := c\<rparr>)"
      using k by (auto simp add: remote_counter_step)
    have b: "c < counter k \<longrightarrow> remote_counter c dev = (False, dev)"
      using k by (simp add: remote_counter_step)
    have m: "remote_count (snd (remote_counters cs dev)) =
           Max (insert (counter k) (set (accepted cs (fst (remote_counters cs dev)))))"
      using remote_counters_max [OF k, of cs] k by (simp add: remote_count_def)
    from a b m show "(counter k \<le> c \<longrightarrow>
         fst (remote_counter c dev) \<and>
         remote_csrk (snd (remote_counter c dev)) = Some (k\<lparr>counter := c\<rparr>)) \<and>
      (c < counter k \<longrightarrow> remote_counter c dev = (False, dev)) \<and>
      remote_count (snd (remote_counters cs dev)) =
        Max (insert (counter k) (set (accepted cs (fst (remote_counters cs dev)))))"
      by blast
  qed
  have rn: "remote_csrk dev = None \<longrightarrow> remote_counter c dev = (False, dev)"
    by (simp add: remote_counter_def)
  have l: "\<forall>l. local_csrk dev = Some l \<longrightarrow>
            fst (local_counter dev) = Some (counter l) \<and>
            local_csrk (snd (local_counter dev)) = Some (l\<lparr>counter := counter l + 1\<rparr>)"
    using local_counter_step by blast
  have ln: "local_csrk dev = None \<longrightarrow> local_counter dev = (None, dev)"
    by (simp add: local_counter_def)
  from r rn l ln show ?thesis by blast
qed

theorem C3_csrk_counters_witness:
  "remote_count c3_dev = 5 \<and>
   remote_counter 4 c3_dev = (False, c3_dev) \<and>
   fst (remote_counter 5 c3_dev) \<and>
   fst (remote_counters [4, 7, 6, 7] c3_dev) = [False, True, False, True] \<and>
   remote_count (snd (remote_counters [4, 7, 6, 7] c3_dev)) = 7 \<and>
   remote_csrk c3_local_dev = None \<and>
   map_option counter (local_csrk c3_local_dev) = Some 41 \<and>
   fst (local_counter c3_local_dev) = Some 41 \<and>
   map_option counter (local_csrk (snd (local_counter c3_local_dev))) = Some 42 \<and>
   fst (local_counter c3_local_dev_last) = Some 0xFFFFFFFF \<and>
   map_option counter (local_csrk (snd (local_counter c3_local_dev_last))) = Some 0 \<and>
   local_counter c3_dev = (None, c3_dev)"
  using C3_csrk_counters [of c3_dev 4 "[4, 7, 6, 7]"] C3_csrk_counters [of c3_dev 5 "[]"]
    C3_csrk_counters [of c3_local_dev 0 "[]"] C3_csrk_counters [of c3_local_dev_last 0 "[]"]
  by (simp add: remote_count_def remote_counter_def local_counter_def c3_dev_def
      c3_local_dev_def c3_local_dev_last_def device_set_csrk_def device0_def
      store_device_info_def device_address_is_private_def emit_def Let_def bdaddr_defs)

subsection \<open>RSSI\<close>

text \<open>
  Claim C6, as stated, fails for updates through \<open>device_set_rssi_with_delta\<close>, the
  exported setter that takes the threshold from its caller: with threshold 0 an update
  that leaves a non-zero value unchanged sends the RSSI change, and with threshold 20 a
  change by 8 between non-zero values sends none.
\<close>

theorem C6_counterexample:
  "trace (device_set_rssi_with_delta (- 60) 0 (device0\<lparr>rssi := - 60\<rparr>)) =
     [PropertyChanged ''RSSI''] \<and>
   trace (device_set_rssi_with_delta (- 60) 20 (device0\<lparr>rssi := - 68\<rparr>)) = [] \<and>
   rssi (device_set_rssi_with_delta (- 60) 20 (device0\<lparr>rssi := - 68\<rparr>)) = - 68"
  by (simp add: device_set_rssi_with_delta_def device0_def emit_def Let_def)

text \<open>
  Claim C6, amended: an update through \<open>device_set_rssi\<close> stores the value and sends
  the RSSI change exactly when the value differs from the stored one and, if neither is
  zero, differs by at least 8; otherwise it changes nothing. An update through
  \<open>device_set_rssi_with_delta\<close> follows the same rule with the caller's threshold in
  the place of 8: if either value is zero it stores and sends exactly when the value
  differs, and if neither is zero exactly when the difference is at least the threshold,
  whether the value differs or not.
\<close>

theorem C6_rssi_threshold:
  "device_set_rssi r dev =
     (if r \<noteq> rssi dev \<and> (r \<noteq> 0 \<and> rssi dev \<noteq> 0 \<longrightarrow> \<bar>sint r - sint (rssi dev)\<bar> \<ge> 8)
      then emit (PropertyChanged ''RSSI'') (dev\<lparr>rssi := r\<rparr>) else dev) \<and>
   device_set_rssi_with_delta r th dev =
     (if (r = 0 \<or> rssi dev = 0 \<longrightarrow> r \<noteq> rssi dev) \<and>
         (r \<noteq> 0 \<and> rssi dev \<noteq> 0 \<longrightarrow> \<bar>sint r - sint (rssi dev)\<bar> \<ge> sint th)
      then emit (PropertyChanged ''RSSI'') (dev\<lparr>rssi := r\<rparr>) else dev)"
  by (auto simp add: device_set_rssi_def device_set_rssi_with_delta_def RSSI_THRESHOLD_def
       Let_def)

theorem C6_rssi_threshold_witness:
  "trace (device_set_rssi (- 60) (device0\<lparr>rssi := - 67\<rparr>)) = [] \<and>
   trace (device_set_rssi (- 60) (device0\<lparr>rssi := - 68\<rparr>)) = [PropertyChanged ''RSSI''] \<and>
   trace (device_set_rssi 0 (device0\<lparr>rssi := - 1\<rparr>)) = [PropertyChanged ''RSSI''] \<and>
   trace (device_set_rssi 0 device0) = [] \<and>
   trace (device_set_rssi_with_delta (- 60) 0 (device0\<lparr>rssi := - 60\<rparr>)) =
     [PropertyChanged ''RSSI''] \<and>
   trace (device_set_rssi_with_delta (- 60) 20 (device0\<lparr>rssi := - 68\<rparr>)) = [] \<and>
   trace (device_set_rssi_with_delta (- 60) 20 (device0\<lparr>rssi := - 80\<rparr>)) =
     [PropertyChanged ''RSSI'']"
  using C6_rssi_threshold [of "- 60" "device0\<lparr>rssi := - 67\<rparr>" 0]
    C6_rssi_threshold [of "- 60" "device0\<lparr>rssi := - 68\<rparr>" 20]
    C6_rssi_threshold [of 0 "device0\<lparr>rssi := - 1\<rparr>" 0]
    C6_rssi_threshold [of 0 device0 0]
    C6_rssi_threshold [of "- 60" "device0\<lparr>rssi := - 60\<rparr>" 0]
    C6_rssi_threshold [of "- 60" "device0\<lparr>rssi := - 80\<rparr>" 20]
  by (simp add: device0_def emit_def)

subsection \<open>Appearance\<close>

text \<open>
  Claim C9, as stated, fails: a device with appearance 0x03C1 that is given the value
  zero has appearance zero afterwards.
\<close>

theorem C9_counterexample:
  "appearance (device0\<lparr>appearance := 0x03C1\<rparr>) \<noteq> 0 \<and>
   appearance (device_set_appearance None 0 (device0\<lparr>appearance := 0x03C1\<rparr>)) = 0"
  by (simp add: device_set_appearance_def device0_def Let_def)

text \<open>
  Claim C9, amended: \<open>device_set_appearance\<close> always leaves the given value stored, zero
  included. Only an update with the value already stored changes nothing; any other
  value replaces the stored one and is announced by an Appearance change.
\<close>

theorem C9_set_appearance:
  "appearance (device_set_appearance icon v dev) = v \<and>
   (appearance dev = v \<longrightarrow> device_set_appearance icon v dev = dev) \<and>
   (appearance dev \<noteq> v \<longrightarrow>
      occurrences (PropertyChanged ''Appearance'') (trace (device_set_appearance icon v dev)) =
        occurrences (PropertyChanged ''Appearance'') (trace dev) + 1)"
  by (simp add: device_set_appearance_def Let_def)

theorem C9_set_appearance_witness:
  "appearance (device_set_appearance None 0 (device0\<lparr>appearance := 0x03C1\<rparr>)) = 0 \<and>
   device_set_appearance None 0x03C1 (device0\<lparr>appearance := 0x03C1\<rparr>) =
     device0\<lparr>appearance := 0x03C1\<rparr> \<and>
   occurrences (PropertyChanged ''Appearance'')
     (trace (device_set_appearance None 0 (device0\<lparr>appearance := 0x03C1\<rparr>))) = 1"
  using C9_set_appearance [of None 0 "device0\<lparr>appearance := 0x03C1\<rparr>"]
    C9_set_appearance [of None "0x03C1" "device0\<lparr>appearance := 0x03C1\<rparr>"]
  by (simp add: device0_def occurrences_def)

subsection \<open>Private addresses\<close>

text \<open>
  Claim C10: for a device whose address is an LE random address with the two top bits
  00 or 01 (a private address), \<open>btd_device_set_temporary\<close> changes nothing, whichever
  value it is given, and \<open>store_device_info\<close> schedules no write.
\<close>

theorem C10_private_temporary_immutable:
  assumes "bdaddr_type dev = BDADDR_LE_RANDOM"
    and "drop_bit 6 (bdaddr dev ! 5) = 0 \<or> drop_bit 6 (bdaddr dev ! 5) = 1"
  shows "device_address_is_private dev \<and>
         btd_device_set_temporary opts True dev = dev \<and>
         btd_device_set_temporary opts False dev = dev \<and>
         store_device_info dev = dev"
proof -
  from assms have p: "device_address_is_private dev"
    by (simp add: device_address_is_private_def Let_def)
  then show ?thesis
    by (simp add: btd_device_set_temporary_def store_device_info_def)
qed

theorem C10_private_temporary_immutable_witness:
  "bdaddr_type c10_dev = BDADDR_LE_RANDOM \<and> drop_bit 6 (bdaddr c10_dev ! 5) = 1 \<and>
   temporary (btd_device_set_temporary sample_opts False c10_dev) \<and>
   store_id (store_device_info c10_dev) = 0"
  using C10_private_temporary_immutable [of c10_dev sample_opts]
  by (simp add: c10_dev_def device0_def bdaddr_defs drop_bit_eq_div)

subsection \<open>Connection removal\<close>

lemma reply_disconnects_keeps:
  "bredr_state (fst (reply_disconnects ms r dev)) = bredr_state dev \<and>
   le_state (fst (reply_disconnects ms r dev)) = le_state dev \<and>
   ((\<forall>m rp. e \<noteq> SendReply m rp) \<longrightarrow>
      occurrences e (trace (fst (reply_disconnects ms r dev))) = occurrences e (trace dev))"
  by (induction ms r dev rule: reply_disconnects.induct) auto

lemma set_temporary_timer_trace:
  "e \<noteq> TimeoutRemove \<and> e \<noteq> TimeoutAdd n \<longrightarrow>
     occurrences e (trace (set_temporary_timer n dev)) = occurrences e (trace dev)"
  by (simp add: set_temporary_timer_def clear_temporary_timer_def Let_def)

lemma set_temporary_timer_keeps [simp]:
  "bredr_state (set_temporary_timer n dev) = bredr_state dev"
  "le_state (set_temporary_timer n dev) = le_state dev"
  "bdaddr_type (set_temporary_timer n dev) = bdaddr_type dev"
  "bredr (set_temporary_timer n dev) = bredr dev"
  "le (set_temporary_timer n dev) = le dev"
  "adapter_bredr (set_temporary_timer n dev) = adapter_bredr dev"
  "bonding (set_temporary_timer n dev) = bonding dev"
  "connect (set_temporary_timer n dev) = connect dev"
  "browse (set_temporary_timer n dev) = browse dev"
  "pending (set_temporary_timer n dev) = pending dev"
  "disconnects (set_temporary_timer n dev) = disconnects dev"
  by (simp_all add: set_temporary_timer_def clear_temporary_timer_def Let_def)

lemma device_update_last_seen_keeps:
  "paired (bredr_state (device_update_last_seen opts cur t c dev)) = paired (bredr_state dev) \<and>
   paired (le_state (device_update_last_seen opts cur t c dev)) = paired (le_state dev) \<and>
   (e \<noteq> TimeoutRemove \<and> e \<noteq> TimeoutAdd (tmpto opts) \<longrightarrow>
      occurrences e (trace (device_update_last_seen opts cur t c dev)) = occurrences e (trace dev))"
  by (simp add: device_update_last_seen_def Let_def set_temporary_timer_trace set_state_def
      get_state_def)

lemma remove_connection_finish_keeps:
  "paired (bredr_state (fst (remove_connection_finish opts cur t reason dev))) =
     paired (bredr_state dev) \<and>
   paired (le_state (fst (remove_connection_finish opts cur t reason dev))) =
     paired (le_state dev) \<and>
   occurrences (PropertyChanged ''Paired'')
     (trace (fst (remove_connection_finish opts cur t reason dev))) =
     occurrences (PropertyChanged ''Paired'') (trace dev) \<and>
   occurrences (AdapterRemoveBonding b)
     (trace (fst (remove_connection_finish opts cur t reason dev))) =
     occurrences (AdapterRemoveBonding b) (trace dev)"
  by (simp add: remove_connection_finish_def Let_def reply_disconnects_keeps
      device_disconnected_def device_update_last_seen_keeps)

lemma remove_connection_link_keeps:
  "bredr_state (remove_connection_link t reason dev) =
     (if t = BDADDR_BREDR then (bredr_state dev)\<lparr>connected := False, initiator := False\<rparr>
      else bredr_state dev) \<and>
   le_state (remove_connection_link t reason dev) =
     (if t = BDADDR_BREDR then le_state dev
      else (le_state dev)\<lparr>connected := False, initiator := False\<rparr>) \<and>
   bdaddr_type (remove_connection_link t reason dev) = bdaddr_type dev \<and>
   occurrences (PropertyChanged ''Paired'') (trace (remove_connection_link t reason dev)) =
     occurrences (PropertyChanged ''Paired'') (trace dev) \<and>
   occurrences (AdapterRemoveBonding b) (trace (remove_connection_link t reason dev)) =
     occurrences (AdapterRemoveBonding b) (trace dev)"
  by (simp add: remove_connection_link_def Let_def set_state_def get_state_def
      device_set_svc_refreshed_def split: option.split)

lemma remove_connection_unpair_effect:
  "paired (bredr_state (remove_connection_unpair dev)) =
     (paired (bredr_state dev) \<and> (connected (bredr_state dev) \<or> bonded (bredr_state dev))) \<and>
   paired (le_state (remove_connection_unpair dev)) =
     (paired (le_state dev) \<and> (connected (le_state dev) \<or> bonded (le_state dev))) \<and>
   connected (bredr_state (remove_connection_unpair dev)) = connected (bredr_state dev) \<and>
   connected (le_state (remove_connection_unpair dev)) = connected (le_state dev) \<and>
   bonded (bredr_state (remove_connection_unpair dev)) = bonded (bredr_state dev) \<and>
   bonded (le_state (remove_connection_unpair dev)) = bonded (le_state dev)"
  by (auto simp add: remove_connection_unpair_def Let_def)

lemma remove_connection_unpair_paired_signal:
  "occurrences (PropertyChanged ''Paired'') (trace (remove_connection_unpair dev)) =
     occurrences (PropertyChanged ''Paired'') (trace dev) +
     (if ((\<not> connected (bredr_state dev) \<and> paired (bredr_state dev) \<and> \<not> bonded (bredr_state dev)) \<or>
          (\<not> connected (le_state dev) \<and> paired (le_state dev) \<and> \<not> bonded (le_state dev))) \<and>
         \<not> paired (bredr_state (remove_connection_unpair dev)) \<and>
         \<not> paired (le_state (remove_connection_unpair dev))
      then 1 else 0)"
  by (auto simp add: remove_connection_unpair_def Let_def)

lemma remove_connection_unpair_bonding:
  "occurrences (AdapterRemoveBonding b) (trace (remove_connection_unpair dev)) =
     occurrences (AdapterRemoveBonding b) (trace dev) +
     (if \<not> connected (bredr_state dev) \<and> paired (bredr_state dev) \<and> \<not> bonded (bredr_state dev) \<and>
         b = BDADDR_BREDR then 1 else 0) +
     (if \<not> connected (le_state dev) \<and> paired (le_state dev) \<and> \<not> bonded (le_state dev) \<and>
         b = bdaddr_type dev then 1 else 0)"
  by (auto simp add: remove_connection_unpair_def Let_def)

text \<open>
  Claim C4: when \<open>device_remove_connection\<close> takes down a connected bearer that is
  paired and not bonded, the bearer's \<open>paired\<close> flag is clear afterwards, the adapter
  has been asked to remove the bonding of that bearer (BR/EDR, or the device's LE address
  type), and the Paired change has been sent once if both bearers are unpaired
  afterwards and not at all otherwise.
\<close>

theorem C4_unpair_on_disconnect:
  assumes "connected (get_state dev t)" and "paired (get_state dev t)"
    and "\<not> bonded (get_state dev t)"
  shows "\<not> paired (get_state (fst (device_remove_connection opts current t reason dev)) t) \<and>
     occurrences (AdapterRemoveBonding (if t = BDADDR_BREDR then BDADDR_BREDR else bdaddr_type dev))
        (trace (fst (device_remove_connection opts current t reason dev))) >
     occurrences (AdapterRemoveBonding (if t = BDADDR_BREDR then BDADDR_BREDR else bdaddr_type dev))
        (trace dev) \<and>
     occurrences (PropertyChanged ''Paired'')
        (trace (fst (device_remove_connection opts current t reason dev))) =
     occurrences (PropertyChanged ''Paired'') (trace dev) +
       (if \<not> paired (bredr_state (fst (device_remove_connection opts current t reason dev))) \<and>
           \<not> paired (le_state (fst (device_remove_connection opts current t reason dev)))
        then 1 else 0)"
proof -
  let ?l = "remove_connection_link t reason dev"
  let ?u = "remove_connection_unpair ?l"
  let ?b = "if t = BDADDR_BREDR then BDADDR_BREDR else bdaddr_type dev"
  have upd: "(\<not> connected (bredr_state ?l) \<and> paired (bredr_state ?l) \<and> \<not> bonded (bredr_state ?l)) \<or>
          (\<not> connected (le_state ?l) \<and> paired (le_state ?l) \<and> \<not> bonded (le_state ?l))"
    using assms by (simp add: remove_connection_link_keeps get_state_def split: if_splits)
  have u1: "\<not> paired (get_state ?u t)"
    using assms
    by (simp add: remove_connection_unpair_effect remove_connection_link_keeps get_state_def
        split: if_splits)
  have u2: "occurrences (AdapterRemoveBonding ?b) (trace ?u) >
            occurrences (AdapterRemoveBonding ?b) (trace dev)"
    using assms
    by (simp add: remove_connection_unpair_bonding remove_connection_link_keeps get_state_def
        split: if_splits)
  have u3: "occurrences (PropertyChanged ''Paired'') (trace ?u) =
     occurrences (PropertyChanged ''Paired'') (trace dev) +
       (if \<not> paired (bredr_state ?u) \<and> \<not> paired (le_state ?u) then 1 else 0)"
    using upd
    by (simp only: remove_connection_unpair_paired_signal [of ?l] remove_connection_link_keeps)
       simp
  show ?thesis
  proof (cases "connected (bredr_state ?u) \<or> connected (le_state ?u)")
    case True
    then have "device_remove_connection opts current t reason dev = (?u, False)"
      using assms(1) by (simp add: device_remove_connection_def Let_def)
    with u1 u2 u3 show ?thesis by simp
  next
    case False
    then have "device_remove_connection opts current t reason dev =
        remove_connection_finish opts current t reason ?u"
      using assms(1) by (simp add: device_remove_connection_def Let_def)
    with u1 u2 u3 show ?thesis
      by (cases "t = BDADDR_BREDR") (simp_all add: remove_connection_finish_keeps get_state_def)
  qed
qed

theorem C4_unpair_on_disconnect_witness:
  "connected (get_state c4_dev BDADDR_LE_PUBLIC) \<and> paired (get_state c4_dev BDADDR_LE_PUBLIC) \<and>
   \<not> bonded (get_state c4_dev BDADDR_LE_PUBLIC) \<and>
   trace (fst (device_remove_connection sample_opts 1000 BDADDR_LE_PUBLIC 0 c4_dev)) =
     [BearerDisconnected Bearer_LE 0, AdapterRemoveBonding BDADDR_LE_PUBLIC,
      BearerPaired Bearer_LE, PropertyChanged ''Paired'', DisconnectedSignal 0,
      PropertyChanged ''Connected''] \<and>
   \<not> paired (le_state (fst (device_remove_connection sample_opts 1000 BDADDR_LE_PUBLIC 0 c4_dev)))"
  using C4_unpair_on_disconnect [of c4_dev BDADDR_LE_PUBLIC sample_opts 1000 0]
  by (simp add: c4_dev_def device0_def bearer_state0_def sample_opts_def
      device_remove_connection_def remove_connection_link_def remove_connection_unpair_def
      remove_connection_finish_def Let_def get_state_def set_state_def
      device_set_svc_refreshed_def device_update_last_seen_def device_disconnected_def
      bearer_of_def emit_def bdaddr_defs)

subsection \<open>The deferred Paired signal\<close>

lemma device_svc_resolved_paired_signal:
  "occurrences (PropertyChanged ''Paired'') (trace (device_svc_resolved t err dev)) =
     occurrences (PropertyChanged ''Paired'') (trace dev) + (if pending_paired dev then 1 else 0) \<and>
   \<not> pending_paired (device_svc_resolved t err dev)"
  by (simp add: device_svc_resolved_def Let_def set_state_def get_state_def
      device_set_svc_refreshed_def)

lemma device_set_paired_deferred:
  assumes "\<not> paired (bredr_state dev)" and "\<not> paired (le_state dev)"
    and "\<not> svc_resolved (get_state dev t)"
  shows "device_set_paired t dev =
     (emit (BearerPaired (bearer_of t))
        (set_state t ((get_state dev t)\<lparr>paired := True\<rparr>) dev))\<lparr>pending_paired := True\<rparr>"
  using assms
  by (cases "t = BDADDR_BREDR")
     (simp_all add: device_set_paired_def Let_def set_state_def get_state_def)

lemma browse_request_complete_pair_signal:
  "\<not> pending_paired dev \<Longrightarrow>
   occurrences (PropertyChanged ''Paired'') (trace (browse_request_complete_pair t dev)) =
     occurrences (PropertyChanged ''Paired'') (trace dev)"
  by (simp add: browse_request_complete_pair_def Let_def)

lemma device_set_paired_other:
  assumes "\<not> paired (get_state dev t)" and "paired (bredr_state dev) \<or> paired (le_state dev)"
  shows "device_set_paired t dev =
     emit (BearerPaired (bearer_of t)) (set_state t ((get_state dev t)\<lparr>paired := True\<rparr>) dev)"
  using assms
  by (cases "t = BDADDR_BREDR")
     (auto simp add: device_set_paired_def Let_def set_state_def get_state_def)

lemma device_set_paired_resolved:
  assumes "\<not> paired (bredr_state dev)" and "\<not> paired (le_state dev)"
    and "svc_resolved (get_state dev t)"
  shows "device_set_paired t dev =
     emit (PropertyChanged ''Paired'')
       (emit (BearerPaired (bearer_of t))
          (set_state t ((get_state dev t)\<lparr>paired := True\<rparr>) dev))"
  using assms
  by (cases "t = BDADDR_BREDR")
     (simp_all add: device_set_paired_def Let_def set_state_def get_state_def)

lemma set_state_keeps [simp]:
  "trace (set_state t st dev) = trace dev"
  "pending_paired (set_state t st dev) = pending_paired dev"
  "paired (get_state (set_state t st dev) t) = paired st"
  by (simp_all add: set_state_def get_state_def)

text \<open>
  Claim C5, as stated, fails. On a device already paired on BR/EDR, a pairing that
  succeeds on LE while the LE services are not resolved sets the LE \<open>paired\<close> flag
  without setting \<open>pending_paired\<close>, and no Paired change is sent, neither then nor when
  the discovery on LE completes.
\<close>

theorem C5_counterexample:
  "\<not> paired (get_state c5_dev BDADDR_LE_PUBLIC) \<and>
   \<not> svc_resolved (get_state c5_dev BDADDR_LE_PUBLIC) \<and>
   paired (get_state (device_set_paired BDADDR_LE_PUBLIC c5_dev) BDADDR_LE_PUBLIC) \<and>
   \<not> pending_paired (device_set_paired BDADDR_LE_PUBLIC c5_dev) \<and>
   occurrences (PropertyChanged ''Paired'')
     (trace (device_svc_resolved BDADDR_LE_PUBLIC 0
               (device_set_paired BDADDR_LE_PUBLIC c5_dev))) = 0"
  by (simp add: c5_dev_def device0_def bearer_state0_def device_set_paired_def
      device_svc_resolved_def store_device_info_def device_address_is_private_def
      device_set_svc_refreshed_def occurrences_def Let_def get_state_def set_state_def
      bearer_of_def emit_def bdaddr_defs)

text \<open>
  Claim C5, amended. \<open>device_set_paired\<close> on a bearer that is already paired changes
  nothing. On a bearer that is not paired it sets the \<open>paired\<close> flag, and: if the other
  bearer is paired, it sends no Paired change and leaves \<open>pending_paired\<close> as it is, so
  that no Paired change comes from this pairing; if no bearer is paired and the
  bearer's services are resolved, it sends the Paired change at once; if no bearer is
  paired and the bearer's services are not resolved, it sends none and sets
  \<open>pending_paired\<close>. \<open>device_svc_resolved\<close>, in every state of the device, sends the
  Paired change once when \<open>pending_paired\<close> is set and not at all when it is clear, and
  clears it. Hence when the completion of the discovery follows the deferred pairing,
  the Paired change is sent exactly once, by that completion, and neither the answer to
  the Pair request nor a later completion sends it again.
\<close>

theorem C5_paired_deferred:
  "(occurrences (PropertyChanged ''Paired'') (trace (device_svc_resolved t' err' d)) =
      occurrences (PropertyChanged ''Paired'') (trace d) + (if pending_paired d then 1 else 0) \<and>
    \<not> pending_paired (device_svc_resolved t' err' d)) \<and>
   (paired (get_state dev t) \<longrightarrow> device_set_paired t dev = dev) \<and>
   (\<not> paired (get_state dev t) \<and> (paired (bredr_state dev) \<or> paired (le_state dev)) \<longrightarrow>
      paired (get_state (device_set_paired t dev) t) \<and>
      pending_paired (device_set_paired t dev) = pending_paired dev \<and>
      occurrences (PropertyChanged ''Paired'') (trace (device_set_paired t dev)) =
        occurrences (PropertyChanged ''Paired'') (trace dev) \<and>
      occurrences (PropertyChanged ''Paired'')
          (trace (device_svc_resolved t err (device_set_paired t dev))) =
        occurrences (PropertyChanged ''Paired'') (trace dev) +
          (if pending_paired dev then 1 else 0)) \<and>
   (\<not> paired (bredr_state dev) \<and> \<not> paired (le_state dev) \<and> svc_resolved (get_state dev t) \<longrightarrow>
      paired (get_state (device_set_paired t dev) t) \<and>
      pending_paired (device_set_paired t dev) = pending_paired dev \<and>
      occurrences (PropertyChanged ''Paired'') (trace (device_set_paired t dev)) =
        occurrences (PropertyChanged ''Paired'') (trace dev) + 1) \<and>
   (\<not> paired (bredr_state dev) \<and> \<not> paired (le_state dev) \<and>
    \<not> svc_resolved (get_state dev t) \<longrightarrow>
      paired (get_state (device_set_paired t dev) t) \<and>
      pending_paired (device_set_paired t dev) \<and>
      occurrences (PropertyChanged ''Paired'') (trace (device_set_paired t dev)) =
        occurrences (PropertyChanged ''Paired'') (trace dev) \<and>
      occurrences (PropertyChanged ''Paired'')
          (trace (device_svc_resolved t err (device_set_paired t dev))) =
        occurrences (PropertyChanged ''Paired'') (trace dev) + 1 \<and>
      \<not> pending_paired (device_svc_resolved t err (device_set_paired t dev)) \<and>
      occurrences (PropertyChanged ''Paired'')
          (trace (browse_request_complete_pair t
                    (device_svc_resolved t err (device_set_paired t dev)))) =
        occurrences (PropertyChanged ''Paired'') (trace dev) + 1 \<and>
      occurrences (PropertyChanged ''Paired'')
          (trace (device_svc_resolved t' err'
                    (device_svc_resolved t err (device_set_paired t dev)))) =
        occurrences (PropertyChanged ''Paired'') (trace dev) + 1)"
proof -
  let ?P = "PropertyChanged ''Paired''"
  let ?p = "device_set_paired t dev"
  have A: "occurrences ?P (trace (device_svc_resolved t' err' d)) =
      occurrences ?P (trace d) + (if pending_paired d then 1 else 0) \<and>
    \<not> pending_paired (device_svc_resolved t' err' d)"
    by (rule device_svc_resolved_paired_signal)
  have B: "paired (get_state dev t) \<longrightarrow> ?p = dev"
    by (simp add: device_set_paired_def)
  have C: "\<not> paired (get_state dev t) \<and> (paired (bredr_state dev) \<or> paired (le_state dev)) \<longrightarrow>
      paired (get_state ?p t) \<and>
      pending_paired ?p = pending_paired dev \<and>
      occurrences ?P (trace ?p) = occurrences ?P (trace dev) \<and>
      occurrences ?P (trace (device_svc_resolved t err ?p)) =
        occurrences ?P (trace dev) + (if pending_paired dev then 1 else 0)"
  proof
    assume h: "\<not> paired (get_state dev t) \<and> (paired (bredr_state dev) \<or> paired (le_state dev))"
    then have eq: "?p = emit (BearerPaired (bearer_of t))
        (set_state t ((get_state dev t)\<lparr>paired := True\<rparr>) dev)"
      by (intro device_set_paired_other) simp_all
    have c1: "paired (get_state ?p t)" by (simp add: eq get_state_def set_state_def)
    have c2: "pending_paired ?p = pending_paired dev" by (simp add: eq)
    have c3: "occurrences ?P (trace ?p) = occurrences ?P (trace dev)" by (simp add: eq)
    from c2 c3 have c4: "occurrences ?P (trace (device_svc_resolved t err ?p)) =
        occurrences ?P (trace dev) + (if pending_paired dev then 1 else 0)"
      by (simp add: device_svc_resolved_paired_signal)
    from c1 c2 c3 c4 show "paired (get_state ?p t) \<and>
      pending_paired ?p = pending_paired dev \<and>
      occurrences ?P (trace ?p) = occurrences ?P (trace dev) \<and>
      occurrences ?P (trace (device_svc_resolved t err ?p)) =
        occurrences ?P (trace dev) + (if pending_paired dev then 1 else 0)"
      by simp
  qed
  have D: "\<not> paired (bredr_state dev) \<and> \<not> paired (le_state dev) \<and>
      svc_resolved (get_state dev t) \<longrightarrow>
      paired (get_state ?p t) \<and>
      pending_paired ?p = pending_paired dev \<and>
      occurrences ?P (trace ?p) = occurrences ?P (trace dev) + 1"
  proof
    assume h: "\<not> paired (bredr_state dev) \<and> \<not> paired (le_state dev) \<and>
      svc_resolved (get_state dev t)"
    then have eq: "?p = emit ?P (emit (BearerPaired (bearer_of t))
          (set_state t ((get_state dev t)\<lparr>paired := True\<rparr>) dev))"
      by (intro device_set_paired_resolved) simp_all
    show "paired (get_state ?p t) \<and>
      pending_paired ?p = pending_paired dev \<and>
      occurrences ?P (trace ?p) = occurrences ?P (trace dev) + 1"
      by (simp add: eq get_state_def set_state_def)
  qed
  have E: "\<not> paired (bredr_state dev) \<and> \<not> paired (le_state dev) \<and>
    \<not> svc_resolved (get_state dev t) \<longrightarrow>
      paired (get_state ?p t) \<and>
      pending_paired ?p \<and>
      occurrences ?P (trace ?p) = occurrences ?P (trace dev) \<and>
      occurrences ?P (trace (device_svc_resolved t err ?p)) = occurrences ?P (trace dev) + 1 \<and>
      \<not> pending_paired (device_svc_resolved t err ?p) \<and>
      occurrences ?P (trace (browse_request_complete_pair t (device_svc_resolved t err ?p))) =
        occurrences ?P (trace dev) + 1 \<and>
      occurrences ?P (trace (device_svc_resolved t' err' (device_svc_resolved t err ?p))) =
        occurrences ?P (trace dev) + 1"
  proof
    assume h: "\<not> paired (bredr_state dev) \<and> \<not> paired (le_state dev) \<and>
      \<not> svc_resolved (get_state dev t)"
    then have eq: "?p = (emit (BearerPaired (bearer_of t))
        (set_state t ((get_state dev t)\<lparr>paired := True\<rparr>) dev))\<lparr>pending_paired := True\<rparr>"
      by (intro device_set_paired_deferred) simp_all
    have a: "paired (get_state ?p t)"
      by (simp add: eq set_state_def get_state_def)
    have b: "pending_paired ?p" by (simp add: eq)
    have c: "occurrences ?P (trace ?p) = occurrences ?P (trace dev)"
      by (simp add: eq)
    have d: "occurrences ?P (trace (device_svc_resolved t err ?p)) =
             occurrences ?P (trace dev) + 1"
      using b c by (simp add: device_svc_resolved_paired_signal)
    have e: "\<not> pending_paired (device_svc_resolved t err ?p)"
      by (simp add: device_svc_resolved_paired_signal)
    have f: "occurrences ?P
               (trace (browse_request_complete_pair t (device_svc_resolved t err ?p))) =
             occurrences ?P (trace dev) + 1"
      using d e by (simp add: browse_request_complete_pair_signal)
    have g: "occurrences ?P
               (trace (device_svc_resolved t' err' (device_svc_resolved t err ?p))) =
             occurrences ?P (trace dev) + 1"
      using d e by (simp add: device_svc_resolved_paired_signal)
    from a b c d e f g show "paired (get_state ?p t) \<and>
      pending_paired ?p \<and>
      occurrences ?P (trace ?p) = occurrences ?P (trace dev) \<and>
      occurrences ?P (trace (device_svc_resolved t err ?p)) = occurrences ?P (trace dev) + 1 \<and>
      \<not> pending_paired (device_svc_resolved t err ?p) \<and>
      occurrences ?P (trace (browse_request_complete_pair t (device_svc_resolved t err ?p))) =
        occurrences ?P (trace dev) + 1 \<and>
      occurrences ?P (trace (device_svc_resolved t' err' (device_svc_resolved t err ?p))) =
        occurrences ?P (trace dev) + 1"
      by simp
  qed
  from A B C D E show ?thesis by blast
qed

theorem C5_paired_deferred_witness:
  "\<not> paired (bredr_state device0) \<and> \<not> paired (le_state device0) \<and>
   \<not> svc_resolved (get_state device0 BDADDR_LE_PUBLIC) \<and>
   trace (device_set_paired BDADDR_LE_PUBLIC device0) = [BearerPaired Bearer_LE] \<and>
   pending_paired (device_set_paired BDADDR_LE_PUBLIC device0) \<and>
   trace (device_svc_resolved BDADDR_LE_PUBLIC 0 (device_set_paired BDADDR_LE_PUBLIC device0)) =
     [BearerPaired Bearer_LE, BearerPaired Bearer_LE, PropertyChanged ''Paired'',
      IdleAddStoreDeviceInfo, StoreServices] \<and>
   paired (bredr_state c5_dev) \<and>
   trace (device_svc_resolved BDADDR_LE_PUBLIC 0 (device_set_paired BDADDR_LE_PUBLIC c5_dev)) =
     [BearerPaired Bearer_LE, IdleAddStoreDeviceInfo, StoreServices] \<and>
   svc_resolved (get_state c5_dev BDADDR_BREDR) \<and>
   trace (device_set_paired BDADDR_BREDR (c5_dev\<lparr>bredr_state :=
            bearer_state0\<lparr>svc_resolved := True\<rparr>\<rparr>)) =
     [BearerPaired Bearer_BREDR, PropertyChanged ''Paired'']"
  using C5_paired_deferred [of BDADDR_LE_PUBLIC 0 device0 device0 BDADDR_LE_PUBLIC 0]
    C5_paired_deferred [of BDADDR_LE_PUBLIC 0 c5_dev c5_dev BDADDR_LE_PUBLIC 0]
    C5_paired_deferred [of BDADDR_LE_PUBLIC 0 device0
      "c5_dev\<lparr>bredr_state := bearer_state0\<lparr>svc_resolved := True\<rparr>\<rparr>" BDADDR_BREDR 0]
  by (simp add: c5_dev_def device0_def bearer_state0_def device_set_paired_def
      device_svc_resolved_def store_device_info_def device_address_is_private_def
      device_set_svc_refreshed_def Let_def get_state_def set_state_def bearer_of_def emit_def
      bdaddr_defs)

subsection \<open>Bearer selection for Pair\<close>

lemma device_set_auto_connect_keeps [simp]:
  "bredr_state (device_set_auto_connect en dev) = bredr_state dev"
  "le_state (device_set_auto_connect en dev) = le_state dev"
  "bdaddr_type (device_set_auto_connect en dev) = bdaddr_type dev"
  "bredr (device_set_auto_connect en dev) = bredr dev"
  "le (device_set_auto_connect en dev) = le dev"
  "adapter_bredr (device_set_auto_connect en dev) = adapter_bredr dev"
  "bonding (device_set_auto_connect en dev) = bonding dev"
  "connect (device_set_auto_connect en dev) = connect dev"
  "browse (device_set_auto_connect en dev) = browse dev"
  "pending (device_set_auto_connect en dev) = pending dev"
  by (simp_all add: device_set_auto_connect_def Let_def)

lemma btd_device_set_temporary_keeps [simp]:
  "bredr_state (btd_device_set_temporary opts tmp dev) = bredr_state dev"
  "le_state (btd_device_set_temporary opts tmp dev) = le_state dev"
  "bdaddr_type (btd_device_set_temporary opts tmp dev) = bdaddr_type dev"
  "bredr (btd_device_set_temporary opts tmp dev) = bredr dev"
  "le (btd_device_set_temporary opts tmp dev) = le dev"
  "adapter_bredr (btd_device_set_temporary opts tmp dev) = adapter_bredr dev"
  "bonding (btd_device_set_temporary opts tmp dev) = bonding dev"
  "connect (btd_device_set_temporary opts tmp dev) = connect dev"
  "browse (btd_device_set_temporary opts tmp dev) = browse dev"
  "pending (btd_device_set_temporary opts tmp dev) = pending dev"
  by (simp_all add: btd_device_set_temporary_def Let_def clear_temporary_timer_def)

lemma get_state_set_temporary [simp]:
  "get_state (btd_device_set_temporary opts tmp dev) t = get_state dev t"
  by (simp add: get_state_def)

lemma select_conn_bearer_cong:
  "bredr_state d = bredr_state dev \<Longrightarrow> le_state d = le_state dev \<Longrightarrow>
   bdaddr_type d = bdaddr_type dev \<Longrightarrow> bredr d = bredr dev \<Longrightarrow> le d = le dev \<Longrightarrow>
   adapter_bredr d = adapter_bredr dev \<Longrightarrow>
   select_conn_bearer current d = select_conn_bearer current dev"
  by (simp add: select_conn_bearer_def Let_def)

lemma pair_bearer_set_temporary [simp]:
  "pair_bearer current (btd_device_set_temporary opts tmp dev) = pair_bearer current dev"
  by (simp add: pair_bearer_def
      select_conn_bearer_cong [of "btd_device_set_temporary opts tmp dev" dev])

lemma select_conn_bearer_range:
  "select_conn_bearer current dev = BDADDR_BREDR \<or>
   select_conn_bearer current dev = bdaddr_type dev"
  by (simp add: select_conn_bearer_def Let_def)

lemma pair_device_reply:
  assumes "args_ok x" and "bonding dev = None" and "connect dev = None"
  shows "(snd (pair_device opts x current dev) = Some AlreadyExists) =
           bonded (get_state dev (pair_bearer current dev)) \<and>
         (snd (pair_device opts x current dev) = None \<longrightarrow>
            map_option bonding_bdaddr_type (bonding (fst (pair_device opts x current dev))) =
              Some (pair_bearer current dev))"
  using assms
  by (simp add: pair_device_def Let_def bonding_request_free_def split: prod.split option.split)

text \<open>
  Claim C7, as stated, fails. On a device with both bearers, none bonded, both seen ten
  seconds ago, and an adapter that has BR/EDR disabled, the selection the specification
  gives for Connect breaks the tie towards BR/EDR, so Pair should go over BR/EDR; the
  code leaves the request pending with a bonding recorded on LE.
\<close>

theorem C7_counterexample:
  "le c7_dev_tie = (bdaddr_type c7_dev_tie \<noteq> BDADDR_BREDR) \<and> bredr c7_dev_tie \<and>
   le c7_dev_tie \<and> \<not> bonded (bredr_state c7_dev_tie) \<and> \<not> bonded (le_state c7_dev_tie) \<and>
   args_ok sample_ext \<and> bonding c7_dev_tie = None \<and> connect c7_dev_tie = None \<and>
   spec_pair_bearer 1000 c7_dev_tie = BDADDR_BREDR \<and>
   snd (pair_device sample_opts sample_ext 1000 c7_dev_tie) = None \<and>
   map_option bonding_bdaddr_type
     (bonding (fst (pair_device sample_opts sample_ext 1000 c7_dev_tie))) =
     Some BDADDR_LE_PUBLIC \<and>
   BDADDR_LE_PUBLIC \<noteq> BDADDR_BREDR"
  by (simp add: c7_dev_tie_def device0_def bearer_state0_def sample_opts_def sample_ext_def
      spec_pair_bearer_def spec_select_conn_bearer_def spec_freshness_def pair_device_def
      pair_bearer_def select_conn_bearer_def seen_age_def NVAL_TIME_def SEEN_TRESHHOLD_def
      btd_device_set_temporary_def get_state_def Let_def emit_def bdaddr_defs)

text \<open>
  Claim C7, amended: take a device with at least one bearer whose address type is an LE
  type exactly when the LE bearer is present, and a Pair request with valid arguments
  that finds no bonding and no Connect in flight. With only one bearer present
  \<open>pair_device\<close> uses that bearer. With both present it takes LE when BR/EDR is bonded
  (also when both are bonded, and Pair then fails with AlreadyExists), and BR/EDR when
  only LE is bonded. With none bonded the selection for Connect as the code has it
  decides: BR/EDR for a BR/EDR \<open>prefer\<close> flag, else LE for an LE \<open>prefer\<close> flag, else
  LE for an LE random address, else by freshness (known for a connectable bearer seen at
  most 300 seconds ago, \<open>last_seen\<close> not zero and the difference not \<open>-1\<close>): both unknown
  the bearer of the address type, one unknown the other bearer, both known BR/EDR when
  its freshness is not greater and the adapter has BR/EDR enabled, LE if not. Pair fails
  with AlreadyExists exactly when the bearer so selected is bonded, and a request that
  stays pending has recorded its bonding on the selected bearer.
\<close>

theorem C7_pair_bearer:
  assumes "le dev = (bdaddr_type dev \<noteq> BDADDR_BREDR)" and "bredr dev \<or> le dev"
    and "args_ok x" and "bonding dev = None" and "connect dev = None"
  shows "(bredr dev \<and> \<not> le dev \<longrightarrow> pair_bearer current dev = BDADDR_BREDR) \<and>
         (le dev \<and> \<not> bredr dev \<longrightarrow> pair_bearer current dev = bdaddr_type dev) \<and>
         (bredr dev \<and> le dev \<and> bonded (bredr_state dev) \<longrightarrow>
            pair_bearer current dev = bdaddr_type dev) \<and>
         (bredr dev \<and> le dev \<and> bonded (bredr_state dev) \<and> bonded (le_state dev) \<longrightarrow>
            snd (pair_device opts x current dev) = Some AlreadyExists) \<and>
         (bredr dev \<and> le dev \<and> \<not> bonded (bredr_state dev) \<and> bonded (le_state dev) \<longrightarrow>
            pair_bearer current dev = BDADDR_BREDR) \<and>
         (bredr dev \<and> le dev \<and> \<not> bonded (bredr_state dev) \<and> \<not> bonded (le_state dev) \<longrightarrow>
            pair_bearer current dev =
              (if prefer' (bredr_state dev) then BDADDR_BREDR
               else if prefer' (le_state dev) then bdaddr_type dev
               else if bdaddr_type dev = BDADDR_LE_RANDOM then bdaddr_type dev
               else if \<not> (connectable (le_state dev) \<and> last_seen (le_state dev) \<noteq> 0 \<and>
                          current - last_seen (le_state dev) \<le> 300 \<and>
                          current - last_seen (le_state dev) \<noteq> - 1)
               then (if \<not> (connectable (bredr_state dev) \<and>
                             last_seen (bredr_state dev) \<noteq> 0 \<and>
                             current - last_seen (bredr_state dev) \<le> 300 \<and>
                             current - last_seen (bredr_state dev) \<noteq> - 1)
                     then bdaddr_type dev
                     else BDADDR_BREDR)
               else if \<not> (connectable (bredr_state dev) \<and>
                             last_seen (bredr_state dev) \<noteq> 0 \<and>
                             current - last_seen (bredr_state dev) \<le> 300 \<and>
                             current - last_seen (bredr_state dev) \<noteq> - 1)
               then bdaddr_type dev
               else if current - last_seen (bredr_state dev) \<le>
                         current - last_seen (le_state dev) \<and>
                       adapter_bredr dev
               then BDADDR_BREDR
               else bdaddr_type dev)) \<and>
         (snd (pair_device opts x current dev) = Some AlreadyExists) =
            bonded (get_state dev (pair_bearer current dev)) \<and>
         (snd (pair_device opts x current dev) = None \<longrightarrow>
            map_option bonding_bdaddr_type (bonding (fst (pair_device opts x current dev))) =
              Some (pair_bearer current dev))"
proof -
  note r = pair_device_reply [OF assms(3,4,5), of opts current]
  have one: "(bredr dev \<and> \<not> le dev \<longrightarrow> pair_bearer current dev = BDADDR_BREDR) \<and>
         (le dev \<and> \<not> bredr dev \<longrightarrow> pair_bearer current dev = bdaddr_type dev)"
    using assms(1) by (simp add: pair_bearer_def)
  have b1: "bredr dev \<and> le dev \<and> bonded (bredr_state dev) \<longrightarrow>
            pair_bearer current dev = bdaddr_type dev"
    by (simp add: pair_bearer_def)
  have b2: "bredr dev \<and> le dev \<and> bonded (bredr_state dev) \<and> bonded (le_state dev) \<longrightarrow>
            snd (pair_device opts x current dev) = Some AlreadyExists"
    using r assms(1) by (auto simp add: pair_bearer_def get_state_def)
  have b3: "bredr dev \<and> le dev \<and> \<not> bonded (bredr_state dev) \<and> bonded (le_state dev) \<longrightarrow>
            pair_bearer current dev = BDADDR_BREDR"
    by (simp add: pair_bearer_def)
  have none: "bredr dev \<and> le dev \<and> \<not> bonded (bredr_state dev) \<and> \<not> bonded (le_state dev) \<longrightarrow>
            pair_bearer current dev =
              (if prefer' (bredr_state dev) then BDADDR_BREDR
               else if prefer' (le_state dev) then bdaddr_type dev
               else if bdaddr_type dev = BDADDR_LE_RANDOM then bdaddr_type dev
               else if \<not> (connectable (le_state dev) \<and> last_seen (le_state dev) \<noteq> 0 \<and>
                          current - last_seen (le_state dev) \<le> 300 \<and>
                          current - last_seen (le_state dev) \<noteq> - 1)
               then (if \<not> (connectable (bredr_state dev) \<and>
                             last_seen (bredr_state dev) \<noteq> 0 \<and>
                             current - last_seen (bredr_state dev) \<le> 300 \<and>
                             current - last_seen (bredr_state dev) \<noteq> - 1)
                     then bdaddr_type dev
                     else BDADDR_BREDR)
               else if \<not> (connectable (bredr_state dev) \<and>
                             last_seen (bredr_state dev) \<noteq> 0 \<and>
                             current - last_seen (bredr_state dev) \<le> 300 \<and>
                             current - last_seen (bredr_state dev) \<noteq> - 1)
               then bdaddr_type dev
               else if current - last_seen (bredr_state dev) \<le>
                         current - last_seen (le_state dev) \<and>
                       adapter_bredr dev
               then BDADDR_BREDR
               else bdaddr_type dev)"
  proof
    assume h: "bredr dev \<and> le dev \<and> \<not> bonded (bredr_state dev) \<and> \<not> bonded (le_state dev)"
    then have pb: "pair_bearer current dev = select_conn_bearer current dev"
      by (simp add: pair_bearer_def)
    show "pair_bearer current dev =
              (if prefer' (bredr_state dev) then BDADDR_BREDR
               else if prefer' (le_state dev) then bdaddr_type dev
               else if bdaddr_type dev = BDADDR_LE_RANDOM then bdaddr_type dev
               else if \<not> (connectable (le_state dev) \<and> last_seen (le_state dev) \<noteq> 0 \<and>
                          current - last_seen (le_state dev) \<le> 300 \<and>
                          current - last_seen (le_state dev) \<noteq> - 1)
               then (if \<not> (connectable (bredr_state dev) \<and>
                             last_seen (bredr_state dev) \<noteq> 0 \<and>
                             current - last_seen (bredr_state dev) \<le> 300 \<and>
                             current - last_seen (bredr_state dev) \<noteq> - 1)
                     then bdaddr_type dev
                     else BDADDR_BREDR)
               else if \<not> (connectable (bredr_state dev) \<and>
                             last_seen (bredr_state dev) \<noteq> 0 \<and>
                             current - last_seen (bredr_state dev) \<le> 300 \<and>
                             current - last_seen (bredr_state dev) \<noteq> - 1)
               then bdaddr_type dev
               else if current - last_seen (bredr_state dev) \<le>
                         current - last_seen (le_state dev) \<and>
                       adapter_bredr dev
               then BDADDR_BREDR
               else bdaddr_type dev)"
    proof (cases "prefer' (bredr_state dev) \<or> prefer' (le_state dev)")
      case True
      with h pb show ?thesis by (auto simp add: select_conn_bearer_def)
    next
      case False
      with h have "select_conn_bearer current dev =
         (if bdaddr_type dev = BDADDR_LE_RANDOM then bdaddr_type dev
          else if \<not> (connectable (le_state dev) \<and> last_seen (le_state dev) \<noteq> 0 \<and>
                     current - last_seen (le_state dev) \<le> 300 \<and>
                     current - last_seen (le_state dev) \<noteq> - 1)
          then (if \<not> (connectable (bredr_state dev) \<and> last_seen (bredr_state dev) \<noteq> 0 \<and>
                        current - last_seen (bredr_state dev) \<le> 300 \<and>
                        current - last_seen (bredr_state dev) \<noteq> - 1)
                then bdaddr_type dev
                else BDADDR_BREDR)
          else if \<not> (connectable (bredr_state dev) \<and> last_seen (bredr_state dev) \<noteq> 0 \<and>
                        current - last_seen (bredr_state dev) \<le> 300 \<and>
                        current - last_seen (bredr_state dev) \<noteq> - 1)
          then bdaddr_type dev
          else if current - last_seen (bredr_state dev) \<le> current - last_seen (le_state dev) \<and>
                  adapter_bredr dev
          then BDADDR_BREDR
          else bdaddr_type dev)"
        by (intro select_conn_bearer_fresh) simp_all
      with False pb show ?thesis by simp
    qed
  qed
  from one b1 b2 b3 none r show ?thesis by blast
qed

theorem C7_pair_bearer_witness:
  "le c7_dev = (bdaddr_type c7_dev \<noteq> BDADDR_BREDR) \<and> bredr c7_dev \<and>
   args_ok sample_ext \<and> bonding c7_dev = None \<and> connect c7_dev = None \<and>
   pair_bearer 1000 c7_dev = BDADDR_BREDR \<and>
   snd (pair_device sample_opts sample_ext 1000 c7_dev) = None \<and>
   map_option bonding_bdaddr_type (bonding (fst (pair_device sample_opts sample_ext 1000 c7_dev))) =
     Some BDADDR_BREDR \<and>
   snd (pair_device sample_opts sample_ext 1000 c7_dev_both) = Some AlreadyExists \<and>
   pair_bearer 1000 c7_dev_tie = BDADDR_LE_PUBLIC \<and>
   pair_bearer 1000 (c7_dev_tie\<lparr>adapter_bredr := True\<rparr>) = BDADDR_BREDR \<and>
   map_option bonding_bdaddr_type
     (bonding (fst (pair_device sample_opts sample_ext 1000 (c7_dev_tie\<lparr>adapter_bredr := True\<rparr>)))) =
     Some BDADDR_BREDR"
  using C7_pair_bearer [of c7_dev sample_ext 1000 sample_opts]
    C7_pair_bearer [of c7_dev_both sample_ext 1000 sample_opts]
    C7_pair_bearer [of c7_dev_tie sample_ext 1000 sample_opts]
    C7_pair_bearer [of "c7_dev_tie\<lparr>adapter_bredr := True\<rparr>" sample_ext 1000 sample_opts]
  by (simp add: c7_dev_def c7_dev_both_def c7_dev_tie_def device0_def bearer_state0_def
      sample_opts_def sample_ext_def pair_device_def pair_bearer_def
      select_conn_bearer_def seen_age_def NVAL_TIME_def SEEN_TRESHHOLD_def
      btd_device_set_temporary_def get_state_def Let_def emit_def bdaddr_defs)

subsection \<open>Requests in progress\<close>

text \<open>
  Claim C2, as stated, fails: a Pair request that arrives while a browse is outstanding
  is not answered with InProgress; it stays pending, and afterwards the device has a
  browse and a bonding at the same time.
\<close>

theorem C2_counterexample:
  "browse c2_dev \<noteq> None \<and>
   snd (pair_device sample_opts sample_ext 1000 c2_dev) = None \<and>
   browse (fst (pair_device sample_opts sample_ext 1000 c2_dev)) \<noteq> None \<and>
   bonding (fst (pair_device sample_opts sample_ext 1000 c2_dev)) \<noteq> None"
  by (simp add: c2_dev_def device0_def bearer_state0_def sample_opts_def sample_ext_def
      pair_device_def pair_bearer_def select_conn_bearer_def seen_age_def NVAL_TIME_def
      btd_device_set_temporary_def get_state_def Let_def emit_def bdaddr_defs)

text \<open>
  Claim C2, amended: each request has its own guard. Pair with valid arguments is
  answered with InProgress exactly when a bonding or a Connect request is in flight.
  Connect is answered with InProgress when a bonding or a Connect request is in flight,
  and also, when it goes over BR/EDR, when a browse or a pending service connection is.
  ConnectProfile with a valid profile is answered with InProgress when a pending service
  connection, a Connect request or a browse is in flight.
\<close>

theorem C2_in_progress:
  "(args_ok x \<longrightarrow>
      (snd (pair_device opts x current dev) = Some InProgress) =
        (bonding dev \<noteq> None \<or> connect dev \<noteq> None)) \<and>
   (bonding dev \<noteq> None \<or> connect dev \<noteq> None \<longrightarrow>
      snd (dev_connect opts resolve x current dev) = Some InProgress) \<and>
   ((browse dev \<noteq> None \<or> pending dev \<noteq> []) \<and> connect_bearer current dev = BDADDR_BREDR \<longrightarrow>
      snd (dev_connect opts resolve x current dev) = Some InProgress) \<and>
   (pending dev \<noteq> [] \<or> connect dev \<noteq> None \<or> browse dev \<noteq> None \<longrightarrow>
      snd (connect_profile opts resolve (Some u) dev) = Some InProgress)"
proof -
  have a: "args_ok x \<longrightarrow>
      (snd (pair_device opts x current dev) = Some InProgress) =
        (bonding dev \<noteq> None \<or> connect dev \<noteq> None)"
    by (auto simp add: pair_device_def Let_def bonding_request_free_def split: prod.split)
  have b: "bonding dev \<noteq> None \<or> connect dev \<noteq> None \<longrightarrow>
      snd (dev_connect opts resolve x current dev) = Some InProgress"
    by (auto simp add: dev_connect_def connect_profiles_def Let_def)
  have c: "(browse dev \<noteq> None \<or> pending dev \<noteq> []) \<and> connect_bearer current dev = BDADDR_BREDR \<longrightarrow>
      snd (dev_connect opts resolve x current dev) = Some InProgress"
    by (auto simp add: dev_connect_def connect_profiles_def Let_def)
  have d: "pending dev \<noteq> [] \<or> connect dev \<noteq> None \<or> browse dev \<noteq> None \<longrightarrow>
      snd (connect_profile opts resolve (Some u) dev) = Some InProgress"
    by (auto simp add: connect_profile_def connect_profiles_def)
  from a b c d show ?thesis by blast
qed

theorem C2_in_progress_witness:
  "args_ok sample_ext \<and> browse c2_dev \<noteq> None \<and>
   snd (pair_device sample_opts sample_ext 1000 (c2_dev\<lparr>connect := Some Connect\<rparr>)) =
     Some InProgress \<and>
   snd (dev_connect sample_opts resolve_pending sample_ext 1000 (c8_dev)) = Some InProgress \<and>
   snd (connect_profile sample_opts resolve_pending (Some ''110b'') c2_dev) = Some InProgress"
  using C2_in_progress [of sample_ext sample_opts 1000 "c2_dev\<lparr>connect := Some Connect\<rparr>"
      resolve_pending "''110b''"]
    C2_in_progress [of sample_ext sample_opts 1000 c8_dev resolve_pending "''110b''"]
    C2_in_progress [of sample_ext sample_opts 1000 c2_dev resolve_pending "''110b''"]
  by (simp add: c2_dev_def c8_dev_def device0_def sample_ext_def)

subsection \<open>Numeric comparison\<close>

text \<open>
  Claim C8, as stated, fails. With a bonding in progress, a Confirm request without the
  confirm hint is passed to the agent as a request for confirmation of the passkey; and
  a request with the hint for a device already paired on that bearer is rejected when
  the re-pairing policy is never.
\<close>

theorem C8_counterexample:
  "bonding c8_dev \<noteq> None \<and>
   trace (fst (device_confirm_passkey sample_opts sample_ext BDADDR_LE_PUBLIC 123456 0 c8_dev)) =
     [AgentRequestConfirmation (Some 1) 123456] \<and>
   bonding c8_dev_paired \<noteq> None \<and>
   trace (fst (device_confirm_passkey sample_opts sample_ext BDADDR_LE_PUBLIC 123456 1
                 c8_dev_paired)) =
     [AdapterConfirmReply BDADDR_LE_PUBLIC False]"
  by (simp add: c8_dev_def c8_dev_paired_def device0_def bearer_state0_def sample_opts_def
      sample_ext_def device_confirm_passkey_def new_auth_def device_is_paired_def get_state_def
      Let_def emit_def bdaddr_defs)

lemma new_auth_bonding:
  assumes "bonding dev = Some b" and "authr dev = None"
    and "(if bonding_agent b \<noteq> None then bonding_agent b else default_agent x) = Some a"
  shows "new_auth x ty kind sec dev =
           Some (\<lparr>auth_type = kind, auth_agent = Some a, addr_type = ty,
                   passkey = 0, secure = sec\<rparr>,
                 dev\<lparr>authr := Some \<lparr>auth_type = kind, auth_agent = Some a,
                                       addr_type = ty, passkey = 0, secure = sec\<rparr>\<rparr>)"
  using assms by (simp add: new_auth_def Let_def)

lemma new_auth_fails:
  assumes "bonding dev = Some b"
    and "authr dev \<noteq> None \<or> (bonding_agent b = None \<and> default_agent x = None)"
  shows "new_auth x ty kind sec dev = None"
  using assms by (auto simp add: new_auth_def Let_def)

text \<open>
  Claim C8, amended, for a device that has a bonding in progress. A Confirm request with
  the confirm hint set is answered at once and the agent is not asked, provided the
  re-pairing policy decides (device paired on that bearer, policy never or always) or an
  authentication request can be set up (none pending, and the bonding or the default
  agent exists); the answer is acceptance, except for a paired device under the policy
  never, which is rejected. A Confirm request without the hint, when an authentication
  request can be set up, is passed to the agent as a request to confirm the passkey, and
  nothing else is sent unless the agent reports a request already in progress, in which
  case the code accepts. When no authentication request can be set up and the policy
  has not decided, the call fails with \<open>EPERM\<close> and sends nothing.
\<close>

theorem C8_confirm_auto_accept:
  assumes "bonding dev = Some b"
  shows "(confirm_hint \<noteq> 0 \<and>
          ((device_is_paired dev ty \<and> jw_repairing opts \<noteq> JW_REPAIRING_CONFIRM) \<or>
           (authr dev = None \<and> (bonding_agent b \<noteq> None \<or> default_agent x \<noteq> None))) \<longrightarrow>
            trace (fst (device_confirm_passkey opts x ty pk confirm_hint dev)) =
              trace dev @ [AdapterConfirmReply ty
                 (\<not> (device_is_paired dev ty \<and> jw_repairing opts = JW_REPAIRING_NEVER))] \<and>
            snd (device_confirm_passkey opts x ty pk confirm_hint dev) = 0) \<and>
         (confirm_hint = 0 \<and> authr dev = None \<and>
          (bonding_agent b \<noteq> None \<or> default_agent x \<noteq> None) \<longrightarrow>
            trace (fst (device_confirm_passkey opts x ty pk confirm_hint dev)) =
              trace dev @
              AgentRequestConfirmation
                (if bonding_agent b \<noteq> None then bonding_agent b else default_agent x) pk #
              (if agent_request_err x = - EINPROGRESS then [AdapterConfirmReply ty True]
               else [])) \<and>
         ((confirm_hint = 0 \<or>
           \<not> (device_is_paired dev ty \<and> jw_repairing opts \<noteq> JW_REPAIRING_CONFIRM)) \<and>
          (authr dev \<noteq> None \<or> (bonding_agent b = None \<and> default_agent x = None)) \<longrightarrow>
            device_confirm_passkey opts x ty pk confirm_hint dev = (dev, - EPERM))"
proof -
  let ?R = "device_confirm_passkey opts x ty pk confirm_hint dev"
  have hinted: "confirm_hint \<noteq> 0 \<and>
          ((device_is_paired dev ty \<and> jw_repairing opts \<noteq> JW_REPAIRING_CONFIRM) \<or>
           (authr dev = None \<and> (bonding_agent b \<noteq> None \<or> default_agent x \<noteq> None))) \<longrightarrow>
            trace (fst ?R) =
              trace dev @ [AdapterConfirmReply ty
                 (\<not> (device_is_paired dev ty \<and> jw_repairing opts = JW_REPAIRING_NEVER))] \<and>
            snd ?R = 0"
  proof
    assume h: "confirm_hint \<noteq> 0 \<and>
          ((device_is_paired dev ty \<and> jw_repairing opts \<noteq> JW_REPAIRING_CONFIRM) \<or>
           (authr dev = None \<and> (bonding_agent b \<noteq> None \<or> default_agent x \<noteq> None)))"
    show "trace (fst ?R) =
              trace dev @ [AdapterConfirmReply ty
                 (\<not> (device_is_paired dev ty \<and> jw_repairing opts = JW_REPAIRING_NEVER))] \<and>
            snd ?R = 0"
    proof (cases "device_is_paired dev ty \<and> jw_repairing opts \<noteq> JW_REPAIRING_CONFIRM")
      case True
      with h show ?thesis
        by (cases "jw_repairing opts") (simp_all add: device_confirm_passkey_def emit_def)
    next
      case False
      with h have n: "authr dev = None"
        and ag: "bonding_agent b \<noteq> None \<or> default_agent x \<noteq> None" by auto
      from ag obtain a where
        a: "(if bonding_agent b \<noteq> None then bonding_agent b else default_agent x) = Some a"
        by (cases "bonding_agent b") auto
      note na = new_auth_bonding [OF assms n a, of ty AUTH_TYPE_CONFIRM False]
      from False h assms na show ?thesis
        by (auto simp add: device_confirm_passkey_def Let_def emit_def)
    qed
  qed
  have plain: "confirm_hint = 0 \<and> authr dev = None \<and>
          (bonding_agent b \<noteq> None \<or> default_agent x \<noteq> None) \<longrightarrow>
            trace (fst ?R) =
              trace dev @
              AgentRequestConfirmation
                (if bonding_agent b \<noteq> None then bonding_agent b else default_agent x) pk #
              (if agent_request_err x = - EINPROGRESS then [AdapterConfirmReply ty True]
               else [])"
  proof
    assume h: "confirm_hint = 0 \<and> authr dev = None \<and>
          (bonding_agent b \<noteq> None \<or> default_agent x \<noteq> None)"
    then obtain a where
      a: "(if bonding_agent b \<noteq> None then bonding_agent b else default_agent x) = Some a"
      by (cases "bonding_agent b") auto
    from h have n: "authr dev = None" by simp
    note na = new_auth_bonding [OF assms n a, of ty AUTH_TYPE_CONFIRM False]
    from h na a show "trace (fst ?R) =
              trace dev @
              AgentRequestConfirmation
                (if bonding_agent b \<noteq> None then bonding_agent b else default_agent x) pk #
              (if agent_request_err x = - EINPROGRESS then [AdapterConfirmReply ty True]
               else [])"
      by (simp add: device_confirm_passkey_def Let_def emit_def confirm_cb_def
          device_auth_req_free_def EINPROGRESS_def)
  qed
  have fails: "(confirm_hint = 0 \<or>
           \<not> (device_is_paired dev ty \<and> jw_repairing opts \<noteq> JW_REPAIRING_CONFIRM)) \<and>
          (authr dev \<noteq> None \<or> (bonding_agent b = None \<and> default_agent x = None)) \<longrightarrow>
            ?R = (dev, - EPERM)"
  proof
    assume h: "(confirm_hint = 0 \<or>
           \<not> (device_is_paired dev ty \<and> jw_repairing opts \<noteq> JW_REPAIRING_CONFIRM)) \<and>
          (authr dev \<noteq> None \<or> (bonding_agent b = None \<and> default_agent x = None))"
    then have "new_auth x ty AUTH_TYPE_CONFIRM False dev = None"
      by (intro new_auth_fails [OF assms]) simp
    with h show "?R = (dev, - EPERM)"
      by (cases "jw_repairing opts") (auto simp add: device_confirm_passkey_def)
  qed
  from hinted plain fails show ?thesis by blast
qed

theorem C8_confirm_auto_accept_witness:
  "bonding c8_dev \<noteq> None \<and> authr c8_dev = None \<and>
   trace (fst (device_confirm_passkey sample_opts sample_ext BDADDR_LE_PUBLIC 123456 1 c8_dev)) =
     [AdapterConfirmReply BDADDR_LE_PUBLIC True] \<and>
   snd (device_confirm_passkey sample_opts sample_ext BDADDR_LE_PUBLIC 123456 1 c8_dev) = 0 \<and>
   trace (fst (device_confirm_passkey sample_opts sample_ext BDADDR_LE_PUBLIC 123456 0 c8_dev)) =
     [AgentRequestConfirmation (Some 1) 123456] \<and>
   trace (fst (device_confirm_passkey sample_opts sample_ext BDADDR_LE_PUBLIC 123456 0
                 c8_dev_paired)) =
     [AgentRequestConfirmation (Some 1) 123456] \<and>
   snd (device_confirm_passkey sample_opts sample_ext BDADDR_LE_PUBLIC 123456 0
          (device_auth_req_free
             (fst (device_confirm_passkey sample_opts sample_ext BDADDR_LE_PUBLIC 123456 0
                     c8_dev)))) = 0 \<and>
   device_confirm_passkey sample_opts sample_ext BDADDR_LE_PUBLIC 123456 0
     (fst (device_confirm_passkey sample_opts sample_ext BDADDR_LE_PUBLIC 123456 0 c8_dev)) =
     (fst (device_confirm_passkey sample_opts sample_ext BDADDR_LE_PUBLIC 123456 0 c8_dev),
      - EPERM)"
  using C8_confirm_auto_accept [of c8_dev
      "\<lparr>bonding_msg = Pair, bonding_bdaddr_type = BDADDR_LE_PUBLIC, bonding_agent = Some 1\<rparr>"
      1 BDADDR_LE_PUBLIC sample_opts sample_ext 123456]
    C8_confirm_auto_accept [of c8_dev
      "\<lparr>bonding_msg = Pair, bonding_bdaddr_type = BDADDR_LE_PUBLIC, bonding_agent = Some 1\<rparr>"
      0 BDADDR_LE_PUBLIC sample_opts sample_ext 123456]
    C8_confirm_auto_accept [of c8_dev_paired
      "\<lparr>bonding_msg = Pair, bonding_bdaddr_type = BDADDR_LE_PUBLIC, bonding_agent = Some 1\<rparr>"
      0 BDADDR_LE_PUBLIC sample_opts sample_ext 123456]
  by (simp add: c8_dev_def c8_dev_paired_def device0_def bearer_state0_def sample_opts_def
      sample_ext_def device_confirm_passkey_def new_auth_def device_is_paired_def
      device_auth_req_free_def get_state_def Let_def emit_def EPERM_def EINPROGRESS_def
      bdaddr_defs)

end
